theory Spec2Isabelle
  imports Main
begin

section \<open>The parsed configuration\<close>

text \<open>
  \<^verbatim>\<open>scripts/setup.py\<close> reads \<^verbatim>\<open>config/config.yaml\<close> with \<^verbatim>\<open>yaml.safe_load\<close> and
  renders two text files from the nested mapping it obtains. The values that the loader
  builds are modelled by the datatype below: strings, integers, booleans, \<^verbatim>\<open>None\<close>,
  lists and dicts with string keys. A dict is an association list in insertion order
  (a Python dict has no repeated key; lookups take the first pair with the key).
  Floats and timestamps are not part of the model. A \<open>char\<close> is a code point below 256.
\<close>

datatype yaml =
    YStr string
  | YInt int
  | YBool bool
  | YNull
  | YSeq "yaml list"
  | YMap "(string \<times> yaml) list"

type_synonym path = "string list"

text \<open>
  The exceptions that the modelled operations raise. A path is the list of its components
  below the repository root, \<^verbatim>\<open>Path(__file__).parent.parent\<close>.
\<close>

datatype exn =
    KeyError string
  | TypeError string
  | AttributeError string string
  | YAMLError string
  | FileNotFoundError path
  | FileExistsError path
  | IsADirectoryError path
  | NotADirectoryError path

subsection \<open>Subscription\<close>

definition type_name :: "yaml \<Rightarrow> string" where
  "type_name v =
     (case v of YStr _ \<Rightarrow> ''str'' | YInt _ \<Rightarrow> ''int'' | YBool _ \<Rightarrow> ''bool''
      | YNull \<Rightarrow> ''NoneType'' | YSeq _ \<Rightarrow> ''list'' | YMap _ \<Rightarrow> ''dict'')"

text \<open>\<^verbatim>\<open>v[k]\<close> for a string key: only a dict that has the key answers.\<close>

definition getitem :: "yaml \<Rightarrow> string \<Rightarrow> exn + yaml" where
  "getitem v k =
     (case v of
        YMap kvs \<Rightarrow> (case map_of kvs k of Some x \<Rightarrow> Inr x | None \<Rightarrow> Inl (KeyError k))
      | _ \<Rightarrow> Inl (TypeError (type_name v)))"

definition bindE :: "exn + 'a \<Rightarrow> ('a \<Rightarrow> exn + 'b) \<Rightarrow> exn + 'b" where
  "bindE r f = (case r of Inl e \<Rightarrow> Inl e | Inr x \<Rightarrow> f x)"

text \<open>\<^verbatim>\<open>config[k1][k2]...\<close>, evaluated from the left.\<close>

primrec getpath :: "yaml \<Rightarrow> string list \<Rightarrow> exn + yaml" where
  "getpath v [] = Inr v"
| "getpath v (k # ks) = bindE (getitem v k) (\<lambda>u. getpath u ks)"

subsection \<open>String forms\<close>

text \<open>
  An f-string field \<^verbatim>\<open>{x}\<close> inserts \<^verbatim>\<open>str(x)\<close>: a string as it is, an integer in
  decimal, and a list or a dict through \<^verbatim>\<open>repr\<close> of its elements.
\<close>

fun str_nat :: "nat \<Rightarrow> string" where
  "str_nat n =
     (if n < 10 then [''0123456789'' ! n]
      else str_nat (n div 10) @ [''0123456789'' ! (n mod 10)])"

declare str_nat.simps [simp del]

definition str_int :: "int \<Rightarrow> string" where
  "str_int i = (if i < 0 then CHR ''-'' # str_nat (nat (- i)) else str_nat (nat i))"

definition hex2 :: "nat \<Rightarrow> string" where
  "hex2 n = [''0123456789abcdef'' ! (n div 16), ''0123456789abcdef'' ! (n mod 16)]"

definition printable :: "char \<Rightarrow> bool" where
  "printable c =
     (let n = (of_char c :: nat)
      in (32 \<le> n \<and> n < 127) \<or> (161 \<le> n \<and> n \<noteq> 173))"

definition repr_char :: "char \<Rightarrow> char \<Rightarrow> string" where
  "repr_char q c =
     (if c = CHR 0x5C then [CHR 0x5C, CHR 0x5C]
      else if c = q then [CHR 0x5C, q]
      else if c = CHR 0x09 then [CHR 0x5C, CHR ''t'']
      else if c = CHR 0x0A then [CHR 0x5C, CHR ''n'']
      else if c = CHR 0x0D then [CHR 0x5C, CHR ''r'']
      else if \<not> printable c then [CHR 0x5C, CHR ''x''] @ hex2 (of_char c)
      else [c])"

definition repr_str :: "string \<Rightarrow> string" where
  "repr_str s =
     (let q = (if CHR 0x27 \<in> set s \<and> CHR 0x22 \<notin> set s then CHR 0x22 else CHR 0x27)
      in q # concat (map (repr_char q) s) @ [q])"

fun join :: "string \<Rightarrow> string list \<Rightarrow> string" where
  "join sep [] = []"
| "join sep [x] = x"
| "join sep (x # y # ys) = x @ sep @ join sep (y # ys)"

fun py_repr :: "yaml \<Rightarrow> string" where
  "py_repr (YStr s) = repr_str s"
| "py_repr (YInt i) = str_int i"
| "py_repr (YBool b) = (if b then ''True'' else ''False'')"
| "py_repr YNull = ''None''"
| "py_repr (YSeq xs) = ''['' @ join '', '' (map py_repr xs) @ '']''"
| "py_repr (YMap kvs) =
     ''{'' @ join '', '' (map (\<lambda>(k, v). repr_str k @ '': '' @ py_repr v) kvs) @ ''}''"

definition py_str :: "yaml \<Rightarrow> string" where
  "py_str v = (case v of YStr s \<Rightarrow> s | _ \<Rightarrow> py_repr v)"

text \<open>A text given by its lines, each ended by a line feed.\<close>

definition unlines :: "string list \<Rightarrow> string" where
  "unlines ls = concat (map (\<lambda>l. l @ [CHR 0x0A]) ls)"

section \<open>The environment file\<close>

text \<open>
  The text that \<^verbatim>\<open>generate_env_file\<close> builds: the fields of the f-string are evaluated
  from the top, so the first subscription that fails aborts the whole text.
\<close>

definition env_content :: "yaml \<Rightarrow> exn + string" where
  "env_content config =
     bindE (getpath config [''spark'', ''version'']) (\<lambda>spark_version.
     bindE (getpath config [''spark'', ''master'', ''memory'']) (\<lambda>master_memory.
     bindE (getpath config [''spark'', ''master'', ''cores'']) (\<lambda>master_cores.
     bindE (getpath config [''spark'', ''worker'', ''memory'']) (\<lambda>worker_memory.
     bindE (getpath config [''spark'', ''worker'', ''cores'']) (\<lambda>worker_cores.
     bindE (getpath config [''spark'', ''worker'', ''instances'']) (\<lambda>worker_instances.
     bindE (getpath config [''spark'', ''executor'', ''memory'']) (\<lambda>executor_memory.
     bindE (getpath config [''spark'', ''executor'', ''cores'']) (\<lambda>executor_cores.
     bindE (getpath config [''python'', ''version'']) (\<lambda>python_version.
     bindE (getpath config [''containers'', ''jupyter'', ''port'']) (\<lambda>jupyter_port.
     bindE (getpath config [''containers'', ''spark_master'', ''ui_port'']) (\<lambda>master_ui_port.
     bindE (getpath config [''containers'', ''spark_master'', ''port'']) (\<lambda>master_port.
     bindE (getpath config [''containers'', ''spark_worker'', ''ui_port'']) (\<lambda>worker_ui_port.
     bindE (getpath config [''volumes'', ''notebooks_path'']) (\<lambda>notebooks_path.
     bindE (getpath config [''volumes'', ''data_path'']) (\<lambda>data_path.
     bindE (getpath config [''network'', ''name'']) (\<lambda>network_name.
     Inr (unlines
       [''# Auto-generated from config/config.yaml'',
        ''# Spark Configuration'',
        ''SPARK_VERSION='' @ py_str spark_version,
        ''SPARK_MASTER_MEMORY='' @ py_str master_memory,
        ''SPARK_MASTER_CORES='' @ py_str master_cores,
        ''SPARK_WORKER_MEMORY='' @ py_str worker_memory,
        ''SPARK_WORKER_CORES='' @ py_str worker_cores,
        ''SPARK_WORKER_INSTANCES='' @ py_str worker_instances,
        ''SPARK_EXECUTOR_MEMORY='' @ py_str executor_memory,
        ''SPARK_EXECUTOR_CORES='' @ py_str executor_cores,
        '''',
        ''# Python Configuration'',
        ''PYTHON_VERSION='' @ py_str python_version,
        '''',
        ''# Container Ports'',
        ''JUPYTER_PORT='' @ py_str jupyter_port,
        ''SPARK_MASTER_UI_PORT='' @ py_str master_ui_port,
        ''SPARK_MASTER_PORT='' @ py_str master_port,
        ''SPARK_WORKER_UI_PORT='' @ py_str worker_ui_port,
        '''',
        ''# Volume Paths'',
        ''NOTEBOOKS_PATH='' @ py_str notebooks_path,
        ''DATA_PATH='' @ py_str data_path,
        '''',
        ''# Network'',
        ''NETWORK_NAME='' @ py_str network_name])))))))))))))))))"

section \<open>The compose manifest\<close>

text \<open>
  The text that \<^verbatim>\<open>generate_docker_compose\<close> builds. The doubled braces of the f-string
  are single braces of the text; the only fields are the four uses of \<^verbatim>\<open>network_name\<close>.
\<close>

definition compose_lines :: "string \<Rightarrow> string list" where
  \<open>compose_lines network_name =
    [''# Configuration-driven Spark environment'',
     ''services:'',
     ''  spark-master:'',
     ''    image: bitnami/spark:${SPARK_VERSION:-3.5.0}'',
     ''    container_name: spark-master'',
     ''    environment:'',
     ''      - SPARK_MODE=master'',
     ''      - SPARK_RPC_AUTHENTICATION_ENABLED=no'',
     ''      - SPARK_RPC_ENCRYPTION_ENABLED=no'',
     ''      - SPARK_LOCAL_STORAGE_ENCRYPTION_ENABLED=no'',
     ''      - SPARK_SSL_ENABLED=no'',
     ''      - SPARK_USER=spark'',
     ''    ports:'',
     ''      - "${SPARK_MASTER_UI_PORT:-8080}:8080"'',
     ''      - "${SPARK_MASTER_PORT:-7077}:7077"'',
     ''    volumes:'',
     ''      - ../${NOTEBOOKS_PATH:-./notebooks}:/opt/notebooks'',
     ''      - ../${DATA_PATH:-./data}:/opt/data'',
     ''      - ../${DATA_PATH:-./data}:/home/jovyan/data'',
     ''    networks:'',
     ''      - '' @ network_name,
     '''',
     ''  spark-worker:'',
     ''    image: bitnami/spark:${SPARK_VERSION:-3.5.0}'',
     ''    container_name: spark-worker'',
     ''    environment:'',
     ''      - SPARK_MODE=worker'',
     ''      - SPARK_MASTER_URL=spark://spark-master:7077'',
     ''      - SPARK_WORKER_MEMORY=${SPARK_WORKER_MEMORY:-2g}'',
     ''      - SPARK_WORKER_CORES=${SPARK_WORKER_CORES:-2}'',
     ''      - SPARK_RPC_AUTHENTICATION_ENABLED=no'',
     ''      - SPARK_RPC_ENCRYPTION_ENABLED=no'',
     ''      - SPARK_LOCAL_STORAGE_ENCRYPTION_ENABLED=no'',
     ''      - SPARK_SSL_ENABLED=no'',
     ''      - SPARK_USER=spark'',
     ''    ports:'',
     ''      - "${SPARK_WORKER_UI_PORT:-8081}:8081"'',
     ''    volumes:'',
     ''      - ../${NOTEBOOKS_PATH:-./notebooks}:/opt/notebooks'',
     ''      - ../${DATA_PATH:-./data}:/opt/data'',
     ''      - ../${DATA_PATH:-./data}:/home/jovyan/data'',
     ''    depends_on:'',
     ''      - spark-master'',
     ''    networks:'',
     ''      - '' @ network_name,
     ''    deploy:'',
     ''      replicas: ${SPARK_WORKER_INSTANCES:-1}'',
     '''',
     ''  jupyter:'',
     ''    build: '',
     ''      context: ..'',
     ''      dockerfile: docker/Dockerfile'',
     ''      args:'',
     ''        PYTHON_VERSION: ${PYTHON_VERSION:-3.11}'',
     ''    container_name: jupyter-pyspark'',
     ''    environment:'',
     ''      - JUPYTER_ENABLE_LAB=yes'',
     ''      - SPARK_MASTER_URL=spark://spark-master:7077'',
     ''      - PYSPARK_SUBMIT_ARGS=--master spark://spark-master:7077 --executor-memory ${SPARK_EXECUTOR_MEMORY:-1g} --executor-cores ${SPARK_EXECUTOR_CORES:-1} pyspark-shell'',
     ''    ports:'',
     ''      - "${JUPYTER_PORT:-8888}:8888"'',
     ''    volumes:'',
     ''      - ../${NOTEBOOKS_PATH:-./notebooks}:/home/jovyan/notebooks'',
     ''      - ../${DATA_PATH:-./data}:/home/jovyan/data'',
     ''      - ../${DATA_PATH:-./data}:/opt/data'',
     ''    depends_on:'',
     ''      - spark-master'',
     ''      - spark-worker'',
     ''    networks:'',
     ''      - '' @ network_name,
     '''',
     ''networks:'',
     ''  '' @ network_name @ '':'',
     ''    driver: bridge'',
     '''',
     ''volumes:'',
     ''  notebooks:'',
     ''  data:'']\<close>

definition compose_content :: "yaml \<Rightarrow> exn + string" where
  "compose_content config =
     bindE (getpath config [''network'', ''name'']) (\<lambda>network_name.
     Inr (unlines (compose_lines (py_str network_name))))"

section \<open>The file system and the console\<close>

text \<open>
  What the program prints: one constructor for each \<^verbatim>\<open>print\<close> call of the script, in
  the order of the source. \<open>MsgCreatedDirs\<close> carries the two directories (the printed
  line shows the last component of each), \<open>MsgError\<close> the exception whose text is shown.
\<close>

datatype message =
    MsgSettingUp
  | MsgLoaded
  | MsgGeneratedEnv
  | MsgGeneratedCompose
  | MsgCreatedDirs path path
  | MsgSetupComplete
  | MsgStepComposeUp
  | MsgStepJupyterLab
  | MsgStepSparkUI
  | MsgToModify
  | MsgStepEdit
  | MsgStepRerun
  | MsgStepRebuild
  | MsgPackagesNote
  | MsgNotFound
  | MsgError exn

text \<open>
  The calls that returned normally, in the order in which they happened. \<open>MadeDir\<close> is a
  \<^verbatim>\<open>mkdir(exist_ok=True)\<close> that returned, whether or not the directory was there.
\<close>

datatype event =
    Printed message
  | Opened path
  | ReadFrom path
  | Wrote path string
  | Closed path
  | MadeDir path

text \<open>
  The state outside the program: the regular files with their contents, the directories,
  and the trace of events. Paths are relative to the root; a path above the root is a list
  of \<^verbatim>\<open>..\<close> followed by names. Access rights and links are outside the model.
\<close>

record world =
  files :: "path \<Rightarrow> string option"
  dirs :: "path set"
  events :: "event list"

type_synonym 'a io = "world \<Rightarrow> (exn \<times> world) + ('a \<times> world)"

definition return_io :: "'a \<Rightarrow> 'a io" where
  "return_io x w = Inr (x, w)"

definition raise_io :: "exn \<Rightarrow> 'a io" where
  "raise_io e w = Inl (e, w)"

definition bind_io :: "'a io \<Rightarrow> ('a \<Rightarrow> 'b io) \<Rightarrow> 'b io" where
  "bind_io m f w = (case m w of Inl ew \<Rightarrow> Inl ew | Inr (x, w') \<Rightarrow> f x w')"

definition then_io :: "unit io \<Rightarrow> 'b io \<Rightarrow> 'b io" where
  "then_io m k = bind_io m (\<lambda>_. k)"

definition lift_io :: "exn + 'a \<Rightarrow> 'a io" where
  "lift_io r = (case r of Inl e \<Rightarrow> raise_io e | Inr x \<Rightarrow> return_io x)"

definition log :: "event list \<Rightarrow> world \<Rightarrow> world" where
  "log es w = w\<lparr>events := events w @ es\<rparr>"

definition print :: "message \<Rightarrow> unit io" where
  "print m w = Inr ((), log [Printed m] w)"

subsection \<open>Where a path leads\<close>

text \<open>
  The root and the directories above it exist: the script lies in \<^verbatim>\<open>scripts\<close> below
  the root.
\<close>

definition above_root :: "path \<Rightarrow> bool" where
  "above_root p = list_all (\<lambda>c. c = ''..'') p"

definition is_dir :: "path set \<Rightarrow> path \<Rightarrow> bool" where
  "is_dir D p = (p \<in> D \<or> above_root p)"

definition parent :: "path \<Rightarrow> path" where
  "parent p = (if above_root p then p @ [''..''] else butlast p)"

text \<open>One step from the directory \<open>cur\<close>: \<^verbatim>\<open>..\<close> goes up, a name goes down.\<close>

definition enter :: "path \<Rightarrow> string \<Rightarrow> path" where
  "enter cur c = (if c = ''..'' then parent cur else cur @ [c])"

text \<open>
  The system follows the components of a path from the left, each from the directory
  reached so far. The walk stops at the first name that is not a directory and answers
  the path where it stopped (\<open>Inl\<close>); otherwise it answers the directory it reached.
\<close>

fun walk :: "path set \<Rightarrow> path \<Rightarrow> string list \<Rightarrow> path + path" where
  "walk D cur [] = Inr cur"
| "walk D cur (c # cs) =
     (if c = ''..'' then walk D (parent cur) cs
      else if is_dir D (cur @ [c]) then walk D (cur @ [c]) cs
      else Inl (cur @ [c]))"

text \<open>
  Where the path \<open>p\<close> leads. What is at the path itself is found at once (the worlds are
  not required to be trees). Otherwise all components but the last are walked: stopping
  at a regular file is \<^verbatim>\<open>ENOTDIR\<close>, stopping at nothing is \<^verbatim>\<open>ENOENT\<close>.
\<close>

definition locate :: "(path \<Rightarrow> string option) \<Rightarrow> path set \<Rightarrow> path \<Rightarrow> exn + path" where
  "locate f D p =
     (if f p \<noteq> None \<or> is_dir D p then Inr p
      else case walk D [] (butlast p) of
             Inl m \<Rightarrow> Inl (if f m \<noteq> None then NotADirectoryError p else FileNotFoundError p)
           | Inr d \<Rightarrow> Inr (enter d (last p)))"

subsection \<open>Files and directories\<close>

text \<open>\<^verbatim>\<open>with open(p, 'r') as f\<close>, reading all of the file.\<close>

definition read_file :: "path \<Rightarrow> string io" where
  "read_file p w =
     (case locate (files w) (dirs w) p of
        Inl e \<Rightarrow> Inl (e, w)
      | Inr q \<Rightarrow>
          (case files w q of
             Some s \<Rightarrow> Inr (s, log [Opened p, ReadFrom p, Closed p] w)
           | None \<Rightarrow>
               if is_dir (dirs w) q then Inl (IsADirectoryError p, w)
               else Inl (FileNotFoundError p, w)))"

text \<open>
  \<^verbatim>\<open>with open(p, 'w') as f: f.write(s)\<close>: the file is created or replaced; its
  directory has to exist.
\<close>

definition write_file :: "path \<Rightarrow> string \<Rightarrow> unit io" where
  "write_file p s w =
     (case locate (files w) (dirs w) p of
        Inl e \<Rightarrow> Inl (e, w)
      | Inr q \<Rightarrow>
          if is_dir (dirs w) q then Inl (IsADirectoryError p, w)
          else Inr ((), log [Opened p, Wrote p s, Closed p]
                          (w\<lparr>files := (files w)(q \<mapsto> s)\<rparr>)))"

text \<open>
  \<^verbatim>\<open>p.mkdir(exist_ok=True)\<close>: nothing to do for a directory that is there; a regular
  file in its place is an error, and so is a parent that cannot be reached (\<^verbatim>\<open>parents\<close>
  is false).
\<close>

definition mkdir_exist_ok :: "path \<Rightarrow> unit io" where
  "mkdir_exist_ok p w =
     (case locate (files w) (dirs w) p of
        Inl e \<Rightarrow> Inl (e, w)
      | Inr q \<Rightarrow>
          if is_dir (dirs w) q then Inr ((), log [MadeDir p] w)
          else if files w q \<noteq> None then Inl (FileExistsError p, w)
          else Inr ((), log [MadeDir p] (w\<lparr>dirs := insert q (dirs w)\<rparr>)))"

section \<open>The steps of the script\<close>

definition config_path :: path where
  "config_path = [''config'', ''config.yaml'']"

definition env_path :: path where
  "env_path = [''config'', ''.env'']"

definition compose_path :: path where
  "compose_path = [''docker'', ''docker-compose.yml'']"

text \<open>
  \<^verbatim>\<open>yaml.safe_load\<close> is a library function: \<open>parse\<close> stands for it, answering the parsed
  value or the text of the \<^verbatim>\<open>YAMLError\<close> it raises.
\<close>

definition load_config :: "(string \<Rightarrow> string + yaml) \<Rightarrow> yaml io" where
  "load_config parse =
     bind_io (read_file config_path) (\<lambda>s.
       case parse s of Inl m \<Rightarrow> raise_io (YAMLError m) | Inr config \<Rightarrow> return_io config)"

definition generate_env_file :: "yaml \<Rightarrow> unit io" where
  "generate_env_file config =
     bind_io (lift_io (env_content config)) (\<lambda>content.
     then_io (write_file env_path content)
             (print MsgGeneratedEnv))"

definition generate_docker_compose :: "yaml \<Rightarrow> unit io" where
  "generate_docker_compose config =
     bind_io (lift_io (compose_content config)) (\<lambda>content.
     then_io (write_file compose_path content)
             (print MsgGeneratedCompose))"

subsection \<open>Directories\<close>

text \<open>\<^verbatim>\<open>s.lstrip(chars)\<close> drops every leading character that occurs in \<open>chars\<close>.\<close>

definition lstrip :: "string \<Rightarrow> string \<Rightarrow> string" where
  "lstrip chars s = dropWhile (\<lambda>c. c \<in> set chars) s"

text \<open>\<open>v.lstrip(chars)\<close> for a value of the configuration: only a string has the method.\<close>

definition lstrip_value :: "yaml \<Rightarrow> string \<Rightarrow> exn + string" where
  "lstrip_value v chars =
     (case v of YStr s \<Rightarrow> Inr (lstrip chars s)
      | _ \<Rightarrow> Inl (AttributeError (type_name v) ''lstrip''))"

fun split_on :: "char \<Rightarrow> string \<Rightarrow> string list" where
  "split_on c [] = [[]]"
| "split_on c (x # xs) =
     (if x = c then [] # split_on c xs
      else (case split_on c xs of [] \<Rightarrow> [[x]] | y # ys \<Rightarrow> (x # y) # ys))"

text \<open>
  \<^verbatim>\<open>base_dir / s\<close> for a string that does not begin with a slash (none does after
  \<^verbatim>\<open>lstrip('./')\<close>): the components of \<open>s\<close>, without the empty ones and the single
  dots, below the root. A component \<^verbatim>\<open>..\<close> is kept as it is.
\<close>

definition under_base :: "string \<Rightarrow> path" where
  "under_base s = filter (\<lambda>c. c \<noteq> [] \<and> c \<noteq> ''.'') (split_on (CHR ''/'') s)"

text \<open>
  The two paths that \<^verbatim>\<open>create_directories\<close> computes before it creates anything:
  \<^verbatim>\<open>base_dir / config['volumes'][k].lstrip('./')\<close> for the notebooks and for the data.
\<close>

definition target_paths :: "yaml \<Rightarrow> exn + (path \<times> path)" where
  "target_paths config =
     bindE (getpath config [''volumes'', ''notebooks_path'']) (\<lambda>nv.
     bindE (lstrip_value nv ''./'') (\<lambda>ns.
     bindE (getpath config [''volumes'', ''data_path'']) (\<lambda>dv.
     bindE (lstrip_value dv ''./'') (\<lambda>ds.
     Inr (under_base ns, under_base ds)))))"

definition create_directories :: "yaml \<Rightarrow> unit io" where
  "create_directories config =
     bind_io (lift_io (target_paths config)) (\<lambda>(notebooks_path, data_path).
     then_io (mkdir_exist_ok notebooks_path)
    (then_io (mkdir_exist_ok data_path)
             (print (MsgCreatedDirs notebooks_path data_path))))"

subsection \<open>The main function\<close>

text \<open>The body of the \<^verbatim>\<open>try\<close> statement.\<close>

definition try_body :: "(string \<Rightarrow> string + yaml) \<Rightarrow> unit io" where
  "try_body parse =
     bind_io (load_config parse) (\<lambda>config.
     then_io (print MsgLoaded)
    (then_io (generate_env_file config)
    (then_io (generate_docker_compose config)
    (then_io (create_directories config)
    (then_io (print MsgSetupComplete)
    (then_io (print MsgStepComposeUp)
    (then_io (print MsgStepJupyterLab)
    (then_io (print MsgStepSparkUI)
    (then_io (print MsgToModify)
    (then_io (print MsgStepEdit)
    (then_io (print MsgStepRerun)
    (then_io (print MsgStepRebuild)
             (print MsgPackagesNote)))))))))))))"

definition is_FileNotFoundError :: "exn \<Rightarrow> bool" where
  "is_FileNotFoundError e = (case e of FileNotFoundError _ \<Rightarrow> True | _ \<Rightarrow> False)"

text \<open>
  \<^verbatim>\<open>main\<close> always returns: the first handler takes every \<^verbatim>\<open>FileNotFoundError\<close> raised
  in the body, the second every other exception. The result is the world after the run.
\<close>

definition main :: "(string \<Rightarrow> string + yaml) \<Rightarrow> world \<Rightarrow> world" where
  "main parse w =
     (case then_io (print MsgSettingUp) (try_body parse) w of
        Inr (_, w') \<Rightarrow> w'
      | Inl (e, w') \<Rightarrow>
          if is_FileNotFoundError e then log [Printed MsgNotFound] w'
          else log [Printed (MsgError e)] w')"

section \<open>Notions of the specification\<close>

subsection \<open>Complete configurations and the entries of the environment file\<close>

text \<open>
  The keys that the specification requires of a Configuration, as its data model lists
  them: \<^verbatim>\<open>spark.version\<close>, \<^verbatim>\<open>spark.master.memory/cores\<close> and so on.
\<close>

definition required_keys :: "string list list" where
  "required_keys =
     [[''spark'', ''version''],
      [''spark'', ''master'', ''memory''],
      [''spark'', ''master'', ''cores''],
      [''spark'', ''worker'', ''memory''],
      [''spark'', ''worker'', ''cores''],
      [''spark'', ''worker'', ''instances''],
      [''spark'', ''executor'', ''memory''],
      [''spark'', ''executor'', ''cores''],
      [''python'', ''version''],
      [''containers'', ''jupyter'', ''port''],
      [''containers'', ''spark_master'', ''port''],
      [''containers'', ''spark_master'', ''ui_port''],
      [''containers'', ''spark_worker'', ''ui_port''],
      [''volumes'', ''notebooks_path''],
      [''volumes'', ''data_path''],
      [''network'', ''name'']]"

definition present :: "yaml \<Rightarrow> string list \<Rightarrow> bool" where
  "present config p = (case getpath config p of Inr _ \<Rightarrow> True | Inl _ \<Rightarrow> False)"

definition complete :: "yaml \<Rightarrow> bool" where
  "complete config = list_all (present config) required_keys"

definition value_at :: "yaml \<Rightarrow> string list \<Rightarrow> yaml" where
  "value_at config p = (case getpath config p of Inr v \<Rightarrow> v | Inl _ \<Rightarrow> YNull)"

text \<open>
  The layout of the environment file: after the heading, one block for each group, made
  of a comment and of one line \<^verbatim>\<open>KEY=value\<close> for each variable with the key of the
  Configuration it shows; an empty line stands between two blocks.
\<close>

definition env_groups :: "(string \<times> (string \<times> string list) list) list" where
  "env_groups =
     [(''# Spark Configuration'',
         [(''SPARK_VERSION'', [''spark'', ''version'']),
          (''SPARK_MASTER_MEMORY'', [''spark'', ''master'', ''memory'']),
          (''SPARK_MASTER_CORES'', [''spark'', ''master'', ''cores'']),
          (''SPARK_WORKER_MEMORY'', [''spark'', ''worker'', ''memory'']),
          (''SPARK_WORKER_CORES'', [''spark'', ''worker'', ''cores'']),
          (''SPARK_WORKER_INSTANCES'', [''spark'', ''worker'', ''instances'']),
          (''SPARK_EXECUTOR_MEMORY'', [''spark'', ''executor'', ''memory'']),
          (''SPARK_EXECUTOR_CORES'', [''spark'', ''executor'', ''cores''])]),
      (''# Python Configuration'',
         [(''PYTHON_VERSION'', [''python'', ''version''])]),
      (''# Container Ports'',
         [(''JUPYTER_PORT'', [''containers'', ''jupyter'', ''port'']),
          (''SPARK_MASTER_UI_PORT'', [''containers'', ''spark_master'', ''ui_port'']),
          (''SPARK_MASTER_PORT'', [''containers'', ''spark_master'', ''port'']),
          (''SPARK_WORKER_UI_PORT'', [''containers'', ''spark_worker'', ''ui_port''])]),
      (''# Volume Paths'',
         [(''NOTEBOOKS_PATH'', [''volumes'', ''notebooks_path'']),
          (''DATA_PATH'', [''volumes'', ''data_path''])]),
      (''# Network'',
         [(''NETWORK_NAME'', [''network'', ''name''])])]"

definition env_entries :: "(string \<times> string list) list" where
  "env_entries = concat (map snd env_groups)"

fun between :: "'a list \<Rightarrow> 'a list list \<Rightarrow> 'a list" where
  "between sep [] = []"
| "between sep [b] = b"
| "between sep (b # c # bs) = b @ sep @ between sep (c # bs)"

definition entry_line :: "yaml \<Rightarrow> string \<times> string list \<Rightarrow> string" where
  "entry_line config e = fst e @ ''='' @ py_str (value_at config (snd e))"

definition env_block :: "yaml \<Rightarrow> string \<times> (string \<times> string list) list \<Rightarrow> string list" where
  "env_block config g = fst g # map (entry_line config) (snd g)"

definition env_text :: "yaml \<Rightarrow> string" where
  "env_text config =
     unlines (''# Auto-generated from config/config.yaml''
              # between [[]] (map (env_block config) env_groups))"

text \<open>
  Reading a text back: its lines, and among them the entries, which are the lines that
  are neither empty nor comments.
\<close>

definition text_lines :: "string \<Rightarrow> string list" where
  "text_lines t = split_on (CHR 0x0A) t"

definition is_entry :: "string \<Rightarrow> bool" where
  "is_entry l = (case l of [] \<Rightarrow> False | c # _ \<Rightarrow> c \<noteq> CHR ''#'')"

definition entry_count :: "string \<Rightarrow> nat" where
  "entry_count t = length (filter is_entry (text_lines t))"

text \<open>An entry read back: the key is what stands before the first \<^verbatim>\<open>=\<close>, the value what follows it.\<close>

definition entry_key :: "string \<Rightarrow> string" where
  "entry_key l = takeWhile (\<lambda>c. c \<noteq> CHR ''='') l"

definition entry_value :: "string \<Rightarrow> string" where
  "entry_value l = drop 1 (dropWhile (\<lambda>c. c \<noteq> CHR ''='') l)"

definition entries_of :: "string \<Rightarrow> (string \<times> string) list" where
  "entries_of t = map (\<lambda>l. (entry_key l, entry_value l)) (filter is_entry (text_lines t))"

subsection \<open>Blocks of the manifest\<close>

text \<open>
  A top-level section of the manifest starts at the line \<^verbatim>\<open>name:\<close> and runs up to the
  next line that starts in the first column. Its blocks are headed by the lines indented
  by two spaces that end in a colon; the name of a block is what stands between.
\<close>

definition top_level :: "string \<Rightarrow> bool" where
  "top_level l = (case l of [] \<Rightarrow> False | c # _ \<Rightarrow> c \<noteq> CHR '' '' \<and> c \<noteq> CHR ''#'')"

definition section_of :: "string \<Rightarrow> string list \<Rightarrow> string list" where
  "section_of name ls =
     takeWhile (\<lambda>l. \<not> top_level l) (drop 1 (dropWhile (\<lambda>l. l \<noteq> name @ '':'') ls))"

definition block_header :: "string \<Rightarrow> bool" where
  "block_header l =
     (case l of
        a # b # c # r \<Rightarrow>
          a = CHR '' '' \<and> b = CHR '' '' \<and> c \<noteq> CHR '' '' \<and> c \<noteq> CHR ''#''
          \<and> last (c # r) = CHR '':''
      | _ \<Rightarrow> False)"

definition block_name :: "string \<Rightarrow> string" where
  "block_name l = butlast (drop 2 l)"

definition blocks :: "string \<Rightarrow> string \<Rightarrow> string list" where
  "blocks name t = map block_name (filter block_header (section_of name (text_lines t)))"

text \<open>
  A name that stays on its line and is read as a name: it has no line feed and does not
  begin with a space or with the sign of a comment.
\<close>

definition plain_name :: "string \<Rightarrow> bool" where
  "plain_name n =
     (CHR 0x0A \<notin> set n \<and>
      (case n of [] \<Rightarrow> True | c # _ \<Rightarrow> c \<noteq> CHR '' '' \<and> c \<noteq> CHR ''#''))"

subsection \<open>Runs\<close>

text \<open>What a run has printed, in order.\<close>

definition console :: "world \<Rightarrow> message list" where
  "console w = concat (map (\<lambda>e. case e of Printed m \<Rightarrow> [m] | _ \<Rightarrow> []) (events w))"

text \<open>A run is successful when the body of the \<^verbatim>\<open>try\<close> statement raises nothing.\<close>

definition run_succeeds :: "(string \<Rightarrow> string + yaml) \<Rightarrow> world \<Rightarrow> bool" where
  "run_succeeds parse w =
     (case then_io (print MsgSettingUp) (try_body parse) w of
        Inr _ \<Rightarrow> True | Inl _ \<Rightarrow> False)"

subsection \<open>Sample inputs\<close>

text \<open>
  A complete Configuration with the values that the manifest names as defaults, open in
  the two directories and in the name of the network.
\<close>

definition sample_config :: "yaml \<Rightarrow> yaml \<Rightarrow> yaml \<Rightarrow> yaml" where
  "sample_config notebooks data_dir net =
     YMap
      [(''spark'', YMap
          [(''version'', YStr ''3.5.0''),
           (''master'', YMap [(''memory'', YStr ''1g''), (''cores'', YInt 1)]),
           (''worker'', YMap [(''memory'', YStr ''2g''), (''cores'', YInt 2),
                              (''instances'', YInt 1)]),
           (''executor'', YMap [(''memory'', YStr ''1g''), (''cores'', YInt 1)])]),
       (''python'', YMap [(''version'', YStr ''3.11'')]),
       (''containers'', YMap
          [(''jupyter'', YMap [(''port'', YInt 8888)]),
           (''spark_master'', YMap [(''port'', YInt 7077), (''ui_port'', YInt 8080)]),
           (''spark_worker'', YMap [(''ui_port'', YInt 8081)])]),
       (''volumes'', YMap [(''notebooks_path'', notebooks), (''data_path'', data_dir)]),
       (''network'', YMap [(''name'', net)])]"

definition example_config :: yaml where
  "example_config =
     sample_config (YStr ''./notebooks'') (YStr ''./data'') (YStr ''spark-network'')"

text \<open>The same Configuration without the key \<^verbatim>\<open>network\<close>.\<close>

definition no_network_config :: yaml where
  "no_network_config =
     (case example_config of YMap kvs \<Rightarrow> YMap (butlast kvs) | v \<Rightarrow> v)"

text \<open>
  A checkout with the directories \<^verbatim>\<open>config\<close> and \<^verbatim>\<open>docker\<close>, and with a configuration
  file when a text is given for it.
\<close>

definition checkout :: "string option \<Rightarrow> world" where
  "checkout cfg_text =
     \<lparr>files = (\<lambda>p. if p = config_path then cfg_text else None),
      dirs = {[], [''config''], [''docker'']},
      events = []\<rparr>"

text \<open>A parser that answers the given value for every text.\<close>

definition parse_as :: "yaml \<Rightarrow> string \<Rightarrow> string + yaml" where
  "parse_as config s = Inr config"

section \<open>Basic facts\<close>

lemma files_log [simp]: "files (log es w) = files w"
  by (simp add: log_def)

lemma dirs_log [simp]: "dirs (log es w) = dirs w"
  by (simp add: log_def)

lemma events_log [simp]: "events (log es w) = events w @ es"
  by (simp add: log_def)

lemmas io_defs = main_def then_io_def bind_io_def print_def try_body_def load_config_def
  read_file_def write_file_def mkdir_exist_ok_def generate_env_file_def
  generate_docker_compose_def create_directories_def lift_io_def raise_io_def return_io_def

lemma paths_distinct [simp]:
  "config_path \<noteq> env_path" "config_path \<noteq> compose_path" "env_path \<noteq> compose_path"
  "env_path \<noteq> config_path" "compose_path \<noteq> config_path" "compose_path \<noteq> env_path"
  by (simp_all add: config_path_def env_path_def compose_path_def)

lemma bindE_Inl: "bindE r f = Inl e \<Longrightarrow> r = Inl e \<or> (\<exists>x. r = Inr x \<and> f x = Inl e)"
  by (auto simp: bindE_def split: sum.splits)

lemma bindE_Inr: "bindE r f = Inr y \<Longrightarrow> \<exists>x. r = Inr x \<and> f x = Inr y"
  by (auto simp: bindE_def split: sum.splits)

text \<open>A subscription raises \<^verbatim>\<open>KeyError\<close> or \<^verbatim>\<open>TypeError\<close>, nothing else.\<close>

lemma getitem_error: "getitem v k = Inl e \<Longrightarrow> \<not> is_FileNotFoundError e"
  by (auto simp: getitem_def is_FileNotFoundError_def split: yaml.splits option.splits)

lemma getpath_error: "getpath v p = Inl e \<Longrightarrow> \<not> is_FileNotFoundError e"
  by (induction p arbitrary: v) (auto simp: bindE_def getitem_error split: sum.splits)

lemma present_Inr: "present config p \<Longrightarrow> getpath config p = Inr (value_at config p)"
  by (simp add: present_def value_at_def split: sum.splits)

subsection \<open>Paths\<close>

lemma not_above_root [simp]:
  "\<not> above_root config_path" "\<not> above_root env_path" "\<not> above_root compose_path"
  by (simp_all add: above_root_def config_path_def env_path_def compose_path_def)

lemma walk_plain:
  "walk D cur cs = Inr d \<Longrightarrow> ''..'' \<notin> set cs \<Longrightarrow> d = cur @ cs"
proof (induction cs arbitrary: cur)
  case Nil
  then show ?case by simp
next
  case (Cons c cs)
  from Cons.prems have w: "walk D (cur @ [c]) cs = Inr d" and n: "''..'' \<notin> set cs"
    by (auto split: if_splits)
  from Cons.IH [OF w n] show ?case by simp
qed

lemma locate_plain:
  assumes "''..'' \<notin> set p" "locate f D p = Inr q"
  shows "q = p"
proof (cases "f p \<noteq> None \<or> is_dir D p")
  case True
  with assms(2) show ?thesis by (simp add: locate_def)
next
  case False
  then have ne: "p \<noteq> []" by (auto simp: is_dir_def above_root_def)
  from False assms(2) obtain d where
    d: "walk D [] (butlast p) = Inr d" and q: "q = enter d (last p)"
    by (auto simp: locate_def split: sum.splits)
  have "''..'' \<notin> set (butlast p)" using assms(1) by (auto dest: in_set_butlastD)
  from walk_plain [OF d this] have b: "d = butlast p" by simp
  have "last p \<in> set p" using ne by simp
  with assms(1) have "last p \<noteq> ''..''" by auto
  with b q ne show ?thesis by (simp add: enter_def)
qed

text \<open>The three files of the script lie one directory below the root.\<close>

lemma locate_two:
  assumes "a \<noteq> ''..''" "b \<noteq> ''..''"
  shows "locate f D [a, b] =
           (if f [a, b] \<noteq> None \<or> [a, b] \<in> D \<or> [a] \<in> D then Inr [a, b]
            else if f [a] \<noteq> None then Inl (NotADirectoryError [a, b])
            else Inl (FileNotFoundError [a, b]))"
  using assms by (auto simp: locate_def is_dir_def above_root_def enter_def)

lemma locate_config:
  "locate f D config_path =
     (if f config_path \<noteq> None \<or> config_path \<in> D \<or> [''config''] \<in> D then Inr config_path
      else if f [''config''] \<noteq> None then Inl (NotADirectoryError config_path)
      else Inl (FileNotFoundError config_path))"
  unfolding config_path_def by (rule locate_two) simp_all

lemma locate_env:
  "locate f D env_path =
     (if f env_path \<noteq> None \<or> env_path \<in> D \<or> [''config''] \<in> D then Inr env_path
      else if f [''config''] \<noteq> None then Inl (NotADirectoryError env_path)
      else Inl (FileNotFoundError env_path))"
  unfolding env_path_def by (rule locate_two) simp_all

lemma locate_compose:
  "locate f D compose_path =
     (if f compose_path \<noteq> None \<or> compose_path \<in> D \<or> [''docker''] \<in> D then Inr compose_path
      else if f [''docker''] \<noteq> None then Inl (NotADirectoryError compose_path)
      else Inl (FileNotFoundError compose_path))"
  unfolding compose_path_def by (rule locate_two) simp_all

lemmas locate_fixed = locate_config locate_env locate_compose

lemma is_dir_fixed [simp]:
  "is_dir D config_path \<longleftrightarrow> config_path \<in> D"
  "is_dir D env_path \<longleftrightarrow> env_path \<in> D"
  "is_dir D compose_path \<longleftrightarrow> compose_path \<in> D"
  by (simp_all add: is_dir_def)

text \<open>More directories do not change where a walk that arrived leads.\<close>

lemma is_dir_mono: "is_dir D p \<Longrightarrow> D \<subseteq> D' \<Longrightarrow> is_dir D' p"
  by (auto simp: is_dir_def)

lemma walk_mono:
  "walk D cur cs = Inr d \<Longrightarrow> D \<subseteq> D' \<Longrightarrow> walk D' cur cs = Inr d"
  by (induction cs arbitrary: cur) (auto split: if_splits dest: is_dir_mono)

lemmas eval_defs = io_defs locate_def is_dir_def above_root_def enter_def parent_def
  parse_as_def checkout_def config_path_def env_path_def compose_path_def under_base_def
  lstrip_def

subsection \<open>Lines of a text\<close>

lemma split_on_not_Nil [simp]: "split_on c l \<noteq> []"
  by (induction l) (auto split: list.splits)

lemma split_on_append:
  "split_on c (l @ c # rest) = split_on c l @ split_on c rest"
  by (induction l) (auto split: list.splits)

lemma split_on_no_sep: "c \<notin> set l \<Longrightarrow> split_on c l = [l]"
  by (induction l) auto

lemma text_lines_unlines_split:
  "text_lines (unlines ls) = concat (map (split_on (CHR 0x0A)) ls) @ [[]]"
  by (induction ls) (simp_all add: text_lines_def unlines_def split_on_append)

lemma text_lines_unlines:
  "\<forall>l \<in> set ls. CHR 0x0A \<notin> set l \<Longrightarrow> text_lines (unlines ls) = ls @ [[]]"
  by (induction ls) (simp_all add: text_lines_def unlines_def split_on_append split_on_no_sep)

subsection \<open>The sample Configuration\<close>

lemma str_int_samples:
  "str_int 1 = ''1''" "str_int 2 = ''2''" "str_int 8888 = ''8888''"
  "str_int 7077 = ''7077''" "str_int 8080 = ''8080''" "str_int 8081 = ''8081''"
  by (simp_all add: str_int_def str_nat.simps)

lemma complete_sample: "complete (sample_config n d net)"
  by (simp add: complete_def required_keys_def present_def sample_config_def getitem_def
        bindE_def)

lemma env_content_sample:
  "env_content (sample_config n d net) =
     Inr (unlines
       [''# Auto-generated from config/config.yaml'',
        ''# Spark Configuration'',
        ''SPARK_VERSION=3.5.0'',
        ''SPARK_MASTER_MEMORY=1g'',
        ''SPARK_MASTER_CORES=1'',
        ''SPARK_WORKER_MEMORY=2g'',
        ''SPARK_WORKER_CORES=2'',
        ''SPARK_WORKER_INSTANCES=1'',
        ''SPARK_EXECUTOR_MEMORY=1g'',
        ''SPARK_EXECUTOR_CORES=1'',
        [],
        ''# Python Configuration'',
        ''PYTHON_VERSION=3.11'',
        [],
        ''# Container Ports'',
        ''JUPYTER_PORT=8888'',
        ''SPARK_MASTER_UI_PORT=8080'',
        ''SPARK_MASTER_PORT=7077'',
        ''SPARK_WORKER_UI_PORT=8081'',
        [],
        ''# Volume Paths'',
        ''NOTEBOOKS_PATH='' @ py_str n,
        ''DATA_PATH='' @ py_str d,
        [],
        ''# Network'',
        ''NETWORK_NAME='' @ py_str net])"
  by (simp add: env_content_def sample_config_def getitem_def bindE_def py_str_def
        str_int_samples)

lemma compose_content_sample:
  "compose_content (sample_config n d net) = Inr (unlines (compose_lines (py_str net)))"
  by (simp add: compose_content_def sample_config_def getitem_def bindE_def)

lemma target_paths_sample:
  "target_paths (sample_config (YStr a) (YStr b) net) =
     Inr (under_base (lstrip ''./'' a), under_base (lstrip ''./'' b))"
  by (simp add: target_paths_def sample_config_def getitem_def bindE_def lstrip_value_def)

section \<open>The environment file: entries\<close>

lemma env_content_complete:
  assumes "complete config"
  shows "env_content config = Inr (env_text config)"
proof -
  have p: "\<And>q. q \<in> set required_keys \<Longrightarrow> getpath config q = Inr (value_at config q)"
    using assms by (simp add: complete_def list_all_iff present_Inr)
  show ?thesis
    unfolding env_content_def
    by (simp add: p required_keys_def bindE_def env_text_def env_groups_def env_block_def
          entry_line_def del: getpath.simps)
qed

lemma env_content_Inr: "env_content config = Inr t \<Longrightarrow> complete config"
  unfolding env_content_def complete_def required_keys_def present_def
  by (auto simp del: getpath.simps dest!: bindE_Inr)

lemma env_content_Inl: "env_content config = Inl e \<Longrightarrow> \<not> is_FileNotFoundError e"
  unfolding env_content_def
  by (auto simp del: getpath.simps dest!: bindE_Inl dest: getpath_error)

lemma generate_env_file_Inr:
  "generate_env_file config w = Inr (u, w') \<Longrightarrow>
     \<exists>t. env_content config = Inr t \<and> files w' = (files w)(env_path \<mapsto> t)"
  by (auto simp: io_defs locate_fixed split: sum.splits if_splits)

lemma value_lines:
  assumes "\<forall>p \<in> set required_keys. CHR 0x0A \<notin> set (py_str (value_at config p))"
  shows "text_lines (env_text config) =
           ''# Auto-generated from config/config.yaml''
           # between [[]] (map (env_block config) env_groups) @ [[]]"
  unfolding env_text_def
  using assms
  by (subst text_lines_unlines)
     (simp_all add: required_keys_def env_groups_def env_block_def entry_line_def)

lemma entries_of_env_text:
  assumes "\<forall>p \<in> set required_keys. CHR 0x0A \<notin> set (py_str (value_at config p))"
  shows "entries_of (env_text config) =
           map (\<lambda>e. (fst e, py_str (value_at config (snd e)))) env_entries"
  unfolding entries_of_def value_lines [OF assms]
  by (simp add: env_groups_def env_block_def entry_line_def env_entries_def is_entry_def
        entry_key_def entry_value_def)

text \<open>
  C1, as amended. Take a complete Configuration in which no required value has a line
  feed in its string form. The text of the environment file, read back line by line, has
  exactly sixteen entries \<^verbatim>\<open>KEY=value\<close> (lines that are neither empty nor comments), in
  the order of \<open>env_entries\<close>, with pairwise different keys, one for each required key of
  the Configuration; the value of each is the string form of the entry of the
  Configuration, put in as it is. Whenever \<^verbatim>\<open>generate_env_file\<close> returns,
  \<^verbatim>\<open>config/.env\<close> holds that text.
\<close>

theorem env_file_sixteen_entries:
  assumes "complete config"
    and "\<forall>p \<in> set required_keys. CHR 0x0A \<notin> set (py_str (value_at config p))"
  shows "env_content config = Inr (env_text config)
       \<and> entries_of (env_text config) =
           map (\<lambda>e. (fst e, py_str (value_at config (snd e)))) env_entries
       \<and> entry_count (env_text config) = 16
       \<and> distinct (map fst (entries_of (env_text config)))
       \<and> set (map snd env_entries) = set required_keys
       \<and> (\<forall>w u w'. generate_env_file config w = Inr (u, w')
             \<longrightarrow> files w' env_path = Some (env_text config))"
proof -
  have t: "env_content config = Inr (env_text config)"
    using assms(1) by (rule env_content_complete)
  note e = entries_of_env_text [OF assms(2)]
  have "entry_count (env_text config) = length (entries_of (env_text config))"
    by (simp add: entry_count_def entries_of_def)
  then have n: "entry_count (env_text config) = 16"
    unfolding e by (simp add: env_entries_def env_groups_def)
  have d: "distinct (map fst (entries_of (env_text config)))"
    unfolding e by (simp add: env_entries_def env_groups_def)
  have k: "set (map snd env_entries) = set required_keys"
    by (auto simp: env_entries_def env_groups_def required_keys_def)
  have f: "files w' env_path = Some (env_text config)"
    if "generate_env_file config w = Inr (u, w')" for w u w'
    using generate_env_file_Inr [OF that] t by auto
  from t e n d k f show ?thesis by blast
qed

lemma sample_values_one_line:
  assumes "CHR 0x0A \<notin> set (py_str n)" "CHR 0x0A \<notin> set (py_str d)"
    "CHR 0x0A \<notin> set (py_str net)"
  shows "\<forall>p \<in> set required_keys.
           CHR 0x0A \<notin> set (py_str (value_at (sample_config n d net) p))"
  using assms
  by (simp add: required_keys_def value_at_def sample_config_def getitem_def bindE_def
        str_int_samples py_str_def [of "YStr _"] py_str_def [of "YInt _"])

theorem env_file_sixteen_entries_witness:
  "complete example_config
   \<and> list_all (\<lambda>p. CHR 0x0A \<notin> set (py_str (value_at example_config p))) required_keys
   \<and> env_content example_config = Inr (env_text example_config)
   \<and> entry_count (env_text example_config) = 16"
proof -
  have c: "complete example_config"
    by (simp add: example_config_def complete_sample)
  have l: "\<forall>p \<in> set required_keys. CHR 0x0A \<notin> set (py_str (value_at example_config p))"
    unfolding example_config_def by (rule sample_values_one_line) (simp_all add: py_str_def)
  show ?thesis
    using env_file_sixteen_entries [OF c l] c l by (simp add: list_all_iff)
qed

lemma under_base_samples:
  "under_base (lstrip ''./'' ''./notebooks'') = [''notebooks'']"
  "under_base (lstrip ''./'' ''./data'') = [''data'']"
  "under_base (lstrip ''./'' ''.notebooks'') = [''notebooks'']"
  "under_base (lstrip ''./'' ''../data'') = [''data'']"
  "under_base (lstrip ''./'' ''./work/notebooks'') = [''work'', ''notebooks'']"
  by (simp_all add: under_base_def lstrip_def)

lemmas run_defs = eval_defs env_content_sample compose_content_sample target_paths_sample

lemma env_file_sample:
  "files (main (parse_as (sample_config (YStr ''./notebooks'') (YStr ''./data'') net))
               (checkout (Some []))) env_path
     = (case env_content (sample_config (YStr ''./notebooks'') (YStr ''./data'') net) of
          Inr t \<Rightarrow> Some t | Inl e \<Rightarrow> None)"
  by (simp add: run_defs)

text \<open>
  C1 as stated speaks of fourteen entries and of every complete Configuration. The
  environment file that a run writes for the sample Configuration has sixteen entries.
  With a network name of two lines the Configuration is still complete, the second line
  of the name becomes a line of the file, and the file has seventeen.
\<close>

theorem env_file_fourteen_counterexample:
  "complete example_config
   \<and> map_option entry_count
        (files (main (parse_as example_config) (checkout (Some []))) env_path) = Some 16
   \<and> map_option entry_count
        (files (main (parse_as example_config) (checkout (Some []))) env_path) \<noteq> Some 14
   \<and> complete (sample_config (YStr ''./notebooks'') (YStr ''./data'')
                  (YStr (''net'' @ [CHR 0x0A] @ ''SPARK_VERSION=9'')))
   \<and> map_option entry_count
        (files (main (parse_as (sample_config (YStr ''./notebooks'') (YStr ''./data'')
                                  (YStr (''net'' @ [CHR 0x0A] @ ''SPARK_VERSION=9''))))
                     (checkout (Some []))) env_path) = Some 17"
  unfolding example_config_def env_file_sample env_content_sample
  by (simp add: complete_sample entry_count_def text_lines_unlines_split split_on_no_sep
        is_entry_def py_str_def)

section \<open>Runs that stop before anything is written\<close>

text \<open>
  C3, as amended. When \<^verbatim>\<open>config/config.yaml\<close> is absent (there is neither a file nor
  a directory at that path) and \<^verbatim>\<open>config\<close> is not a regular file, the run writes no
  file and creates no directory, prints the message that the file was not found after
  the opening line, and returns.
\<close>

theorem absent_config_reported:
  assumes "files w config_path = None" "config_path \<notin> dirs w"
    and "files w [''config''] = None"
  shows "files (main parse w) = files w
       \<and> dirs (main parse w) = dirs w
       \<and> events (main parse w) = events w @ [Printed MsgSettingUp, Printed MsgNotFound]"
  using assms
  by (simp add: main_def then_io_def bind_io_def print_def try_body_def load_config_def
        read_file_def locate_config is_FileNotFoundError_def)

theorem absent_config_reported_witness:
  "files (checkout None) config_path = None
   \<and> config_path \<notin> dirs (checkout None)
   \<and> files (checkout None) [''config''] = None
   \<and> files (main (parse_as example_config) (checkout None)) env_path = None
   \<and> files (main (parse_as example_config) (checkout None)) compose_path = None
   \<and> events (main (parse_as example_config) (checkout None)) =
       [Printed MsgSettingUp, Printed MsgNotFound]"
proof -
  have a: "files (checkout None) config_path = None"
    by (simp add: checkout_def)
  have b: "config_path \<notin> dirs (checkout None)"
    by (simp add: checkout_def config_path_def)
  have c: "files (checkout None) [''config''] = None"
    by (simp add: checkout_def)
  show ?thesis
    using absent_config_reported [OF a b c, of "parse_as example_config"] a b c
    by (simp add: checkout_def)
qed

text \<open>
  C3 as stated covers every run in which \<^verbatim>\<open>config/config.yaml\<close> is absent. In the
  world below \<^verbatim>\<open>config\<close> is a regular file, so there is nothing at
  \<^verbatim>\<open>config/config.yaml\<close>; \<^verbatim>\<open>open\<close> raises \<^verbatim>\<open>NotADirectoryError\<close>, which is not a
  \<^verbatim>\<open>FileNotFoundError\<close>: the second handler reports it and the message that the file
  was not found is not printed.
\<close>

theorem absent_config_counterexample:
  "files (checkout None\<lparr>files := (files (checkout None))([''config''] \<mapsto> []),
                         dirs := {[''docker'']}\<rparr>) config_path = None
   \<and> config_path \<notin> dirs (checkout None\<lparr>files := (files (checkout None))([''config''] \<mapsto> []),
                                          dirs := {[''docker'']}\<rparr>)
   \<and> console (main (parse_as example_config)
                (checkout None\<lparr>files := (files (checkout None))([''config''] \<mapsto> []),
                                dirs := {[''docker'']}\<rparr>))
      = [MsgSettingUp, MsgError (NotADirectoryError config_path)]"
  by (simp add: eval_defs console_def is_FileNotFoundError_def)

text \<open>
  C2. When the Configuration that was loaded lacks one of the required keys, the text of
  the environment file cannot be built: the run reports the exception after the line
  about the loaded file and returns; no file is written and no directory is created.
\<close>

theorem missing_key_aborts:
  assumes "files w config_path = Some s" "parse s = Inr config"
    and "p \<in> set required_keys" "\<not> present config p"
  shows "files (main parse w) = files w
       \<and> dirs (main parse w) = dirs w
       \<and> (\<exists>e. env_content config = Inl e
             \<and> events (main parse w) =
                 events w @ [Printed MsgSettingUp, Opened config_path, ReadFrom config_path,
                             Closed config_path, Printed MsgLoaded, Printed (MsgError e)])"
proof (cases "env_content config")
  case (Inr t)
  then have "complete config" by (rule env_content_Inr)
  with assms(3,4) show ?thesis by (simp add: complete_def list_all_iff)
next
  case (Inl e)
  then have "\<not> is_FileNotFoundError e" by (rule env_content_Inl)
  with Inl assms(1,2) show ?thesis
    by (simp add: main_def then_io_def bind_io_def print_def try_body_def load_config_def
          read_file_def locate_config generate_env_file_def lift_io_def raise_io_def
          return_io_def)
qed

theorem missing_key_aborts_witness:
  "[''network'', ''name''] \<in> set required_keys
   \<and> \<not> present no_network_config [''network'', ''name'']
   \<and> files (main (parse_as no_network_config) (checkout (Some []))) env_path = None
   \<and> files (main (parse_as no_network_config) (checkout (Some []))) compose_path = None
   \<and> dirs (main (parse_as no_network_config) (checkout (Some []))) = dirs (checkout (Some []))"
proof -
  have a: "files (checkout (Some [])) config_path = Some []"
    by (simp add: checkout_def)
  have b: "parse_as no_network_config [] = Inr no_network_config"
    by (simp add: parse_as_def)
  have c: "[''network'', ''name''] \<in> set required_keys"
    by (simp add: required_keys_def)
  have d: "\<not> present no_network_config [''network'', ''name'']"
    by (simp add: present_def no_network_config_def example_config_def sample_config_def
          getitem_def bindE_def)
  show ?thesis
    using missing_key_aborts [of "checkout (Some [])" "[]" "parse_as no_network_config" no_network_config "[''network'', ''name'']", OF a b c d] c d
    by (simp add: checkout_def env_path_def compose_path_def config_path_def)
qed

section \<open>Successful runs\<close>

text \<open>What is known when a step has returned.\<close>

lemma bind_io_InrD:
  "bind_io m f w = Inr r \<Longrightarrow> \<exists>x w'. m w = Inr (x, w') \<and> f x w' = Inr r"
  by (auto simp: bind_io_def split: sum.splits)

lemma then_io_InrD:
  "then_io m k w = Inr r \<Longrightarrow> \<exists>u w'. m w = Inr (u, w') \<and> k w' = Inr r"
  by (auto simp: then_io_def bind_io_def split: sum.splits)

lemma print_InrD: "print m w = Inr (u, w') \<Longrightarrow> w' = log [Printed m] w"
  by (simp add: print_def)

lemma load_config_InrD:
  "load_config parse w = Inr (config, w') \<Longrightarrow>
     \<exists>s. files w config_path = Some s \<and> parse s = Inr config
        \<and> w' = log [Opened config_path, ReadFrom config_path, Closed config_path] w"
  by (auto simp: load_config_def bind_io_def read_file_def locate_config raise_io_def
        return_io_def split: option.splits sum.splits if_splits)

lemma generate_env_file_InrD:
  "generate_env_file config w = Inr (u, w') \<Longrightarrow>
     \<exists>t. env_content config = Inr t
        \<and> files w' = (files w)(env_path \<mapsto> t) \<and> dirs w' = dirs w
        \<and> events w' = events w @ [Opened env_path, Wrote env_path t, Closed env_path,
                                    Printed MsgGeneratedEnv]"
  by (auto simp: generate_env_file_def bind_io_def then_io_def lift_io_def raise_io_def
        return_io_def write_file_def locate_env print_def split: sum.splits if_splits)

lemma generate_docker_compose_InrD:
  "generate_docker_compose config w = Inr (u, w') \<Longrightarrow>
     \<exists>m. compose_content config = Inr m
        \<and> files w' = (files w)(compose_path \<mapsto> m) \<and> dirs w' = dirs w
        \<and> events w' = events w @ [Opened compose_path, Wrote compose_path m,
                                    Closed compose_path, Printed MsgGeneratedCompose]"
  by (auto simp: generate_docker_compose_def bind_io_def then_io_def lift_io_def raise_io_def
        return_io_def write_file_def locate_compose print_def split: sum.splits if_splits)

lemma create_directories_InrD:
  "create_directories config w = Inr (u, w') \<Longrightarrow>
     \<exists>a b. target_paths config = Inr (a, b)
        \<and> files w' = files w \<and> dirs w \<subseteq> dirs w'
        \<and> events w' = events w @ [MadeDir a, MadeDir b, Printed (MsgCreatedDirs a b)]"
  by (auto simp: create_directories_def bind_io_def then_io_def lift_io_def raise_io_def
        return_io_def mkdir_exist_ok_def print_def
        split: sum.splits if_splits prod.splits)

lemma try_body_InrD:
  assumes "try_body parse w = Inr (u, w')"
  shows "\<exists>s config t m a b.
           files w config_path = Some s \<and> parse s = Inr config
         \<and> env_content config = Inr t \<and> compose_content config = Inr m
         \<and> target_paths config = Inr (a, b)
         \<and> files w' = (files w)(env_path \<mapsto> t, compose_path \<mapsto> m)
         \<and> dirs w \<subseteq> dirs w'
         \<and> events w' =
             events w @
             [Opened config_path, ReadFrom config_path, Closed config_path,
              Printed MsgLoaded,
              Opened env_path, Wrote env_path t, Closed env_path,
              Printed MsgGeneratedEnv,
              Opened compose_path, Wrote compose_path m, Closed compose_path,
              Printed MsgGeneratedCompose,
              MadeDir a, MadeDir b,
              Printed (MsgCreatedDirs a b),
              Printed MsgSetupComplete, Printed MsgStepComposeUp, Printed MsgStepJupyterLab,
              Printed MsgStepSparkUI, Printed MsgToModify, Printed MsgStepEdit,
              Printed MsgStepRerun, Printed MsgStepRebuild, Printed MsgPackagesNote]"
proof -
  from assms obtain config w1 w2 w3 w4 w5 where
    l: "load_config parse w = Inr (config, w1)" and
    p: "w2 = log [Printed MsgLoaded] w1" and
    e: "generate_env_file config w2 = Inr ((), w3)" and
    c: "generate_docker_compose config w3 = Inr ((), w4)" and
    d: "create_directories config w4 = Inr ((), w5)" and
    r: "w' = log [Printed MsgSetupComplete, Printed MsgStepComposeUp,
                  Printed MsgStepJupyterLab, Printed MsgStepSparkUI, Printed MsgToModify,
                  Printed MsgStepEdit, Printed MsgStepRerun, Printed MsgStepRebuild,
                  Printed MsgPackagesNote] w5"
    unfolding try_body_def
    by (auto dest!: bind_io_InrD then_io_InrD print_InrD simp: log_def)
  from load_config_InrD [OF l] obtain s where
    s: "files w config_path = Some s" "parse s = Inr config"
       "w1 = log [Opened config_path, ReadFrom config_path, Closed config_path] w"
    by blast
  from generate_env_file_InrD [OF e] obtain t where
    t: "env_content config = Inr t" "files w3 = (files w2)(env_path \<mapsto> t)"
       "dirs w3 = dirs w2"
       "events w3 = events w2 @ [Opened env_path, Wrote env_path t, Closed env_path,
                                  Printed MsgGeneratedEnv]"
    by blast
  from generate_docker_compose_InrD [OF c] obtain m where
    m: "compose_content config = Inr m" "files w4 = (files w3)(compose_path \<mapsto> m)"
       "dirs w4 = dirs w3"
       "events w4 = events w3 @ [Opened compose_path, Wrote compose_path m,
                                  Closed compose_path, Printed MsgGeneratedCompose]"
    by blast
  from create_directories_InrD [OF d] obtain a b where
    ab: "target_paths config = Inr (a, b)" "files w5 = files w4"
        "dirs w4 \<subseteq> dirs w5"
        "events w5 = events w4 @ [MadeDir a, MadeDir b, Printed (MsgCreatedDirs a b)]"
    by blast
  have "files w' = (files w)(env_path \<mapsto> t, compose_path \<mapsto> m)"
    by (simp add: r ab m t p s)
  moreover have "dirs w \<subseteq> dirs w'"
    using ab(3) by (simp add: r m t p s)
  moreover have "events w' =
             events w @
             [Opened config_path, ReadFrom config_path, Closed config_path,
              Printed MsgLoaded,
              Opened env_path, Wrote env_path t, Closed env_path,
              Printed MsgGeneratedEnv,
              Opened compose_path, Wrote compose_path m, Closed compose_path,
              Printed MsgGeneratedCompose,
              MadeDir a, MadeDir b,
              Printed (MsgCreatedDirs a b),
              Printed MsgSetupComplete, Printed MsgStepComposeUp, Printed MsgStepJupyterLab,
              Printed MsgStepSparkUI, Printed MsgToModify, Printed MsgStepEdit,
              Printed MsgStepRerun, Printed MsgStepRebuild, Printed MsgPackagesNote]"
    by (simp add: r ab m t p s)
  ultimately show ?thesis
    using s(1,2) t(1) m(1) ab(1) by blast
qed

lemma run_succeeds_steps:
  assumes "run_succeeds parse w"
  shows "\<exists>s config t m a b.
           files w config_path = Some s \<and> parse s = Inr config
         \<and> env_content config = Inr t \<and> compose_content config = Inr m
         \<and> target_paths config = Inr (a, b)
         \<and> files (main parse w) = (files w)(env_path \<mapsto> t, compose_path \<mapsto> m)
         \<and> dirs w \<subseteq> dirs (main parse w)
         \<and> events (main parse w) =
             events w @
             [Printed MsgSettingUp,
              Opened config_path, ReadFrom config_path, Closed config_path,
              Printed MsgLoaded,
              Opened env_path, Wrote env_path t, Closed env_path,
              Printed MsgGeneratedEnv,
              Opened compose_path, Wrote compose_path m, Closed compose_path,
              Printed MsgGeneratedCompose,
              MadeDir a, MadeDir b,
              Printed (MsgCreatedDirs a b),
              Printed MsgSetupComplete, Printed MsgStepComposeUp, Printed MsgStepJupyterLab,
              Printed MsgStepSparkUI, Printed MsgToModify, Printed MsgStepEdit,
              Printed MsgStepRerun, Printed MsgStepRebuild, Printed MsgPackagesNote]"
proof -
  from assms obtain u w' where
    b: "try_body parse (log [Printed MsgSettingUp] w) = Inr (u, w')"
    by (auto simp: run_succeeds_def then_io_def bind_io_def print_def split: sum.splits)
  then have "main parse w = w'"
    by (simp add: main_def then_io_def bind_io_def print_def)
  with try_body_InrD [OF b] show ?thesis by simp
qed

lemma run_succeeds_example:
  "run_succeeds (parse_as example_config) (checkout (Some []))"
  by (simp add: run_succeeds_def run_defs example_config_def)

text \<open>
  C10. In a successful run the calls happen in one fixed order: the configuration file
  is read, \<^verbatim>\<open>config/.env\<close> is opened, written and closed, then
  \<^verbatim>\<open>docker/docker-compose.yml\<close> is opened, written and closed, and only then the two
  directories are made, the one for the notebooks first.
\<close>

theorem successful_run_order:
  assumes "run_succeeds parse w"
  shows "\<exists>t m a b.
           events (main parse w) =
             events w @
             [Printed MsgSettingUp,
              Opened config_path, ReadFrom config_path, Closed config_path,
              Printed MsgLoaded,
              Opened env_path, Wrote env_path t, Closed env_path,
              Printed MsgGeneratedEnv,
              Opened compose_path, Wrote compose_path m, Closed compose_path,
              Printed MsgGeneratedCompose,
              MadeDir a, MadeDir b,
              Printed (MsgCreatedDirs a b),
              Printed MsgSetupComplete, Printed MsgStepComposeUp, Printed MsgStepJupyterLab,
              Printed MsgStepSparkUI, Printed MsgToModify, Printed MsgStepEdit,
              Printed MsgStepRerun, Printed MsgStepRebuild, Printed MsgPackagesNote]"
  using run_succeeds_steps [OF assms] by blast

theorem successful_run_order_witness:
  "run_succeeds (parse_as example_config) (checkout (Some []))
   \<and> (\<exists>t m a b.
         events (main (parse_as example_config) (checkout (Some []))) =
             [Printed MsgSettingUp,
              Opened config_path, ReadFrom config_path, Closed config_path,
              Printed MsgLoaded,
              Opened env_path, Wrote env_path t, Closed env_path,
              Printed MsgGeneratedEnv,
              Opened compose_path, Wrote compose_path m, Closed compose_path,
              Printed MsgGeneratedCompose,
              MadeDir a, MadeDir b,
              Printed (MsgCreatedDirs a b),
              Printed MsgSetupComplete, Printed MsgStepComposeUp, Printed MsgStepJupyterLab,
              Printed MsgStepSparkUI, Printed MsgToModify, Printed MsgStepEdit,
              Printed MsgStepRerun, Printed MsgStepRebuild, Printed MsgPackagesNote])"
proof -
  have e: "events (checkout (Some [])) = []"
    by (simp add: checkout_def)
  show ?thesis
    using successful_run_order [OF run_succeeds_example] run_succeeds_example
    by (simp add: e)
qed

section \<open>Running again\<close>

subsection \<open>Making a directory again\<close>

lemma locate_again:
  assumes "locate f D p = Inr q" "D \<subseteq> D'" "is_dir D' q"
  shows "\<exists>q'. locate f D' p = Inr q' \<and> is_dir D' q'"
proof (cases "f p \<noteq> None \<or> is_dir D' p")
  case True
  then have l: "locate f D' p = Inr p" by (simp add: locate_def)
  show ?thesis
  proof (cases "is_dir D' p")
    case True
    with l show ?thesis by simp
  next
    case False
    with \<open>f p \<noteq> None \<or> is_dir D' p\<close> have "f p \<noteq> None" by simp
    then have "locate f D p = Inr p" by (simp add: locate_def)
    with assms(1,3) l show ?thesis by simp
  qed
next
  case False
  then have n: "f p = None" "\<not> is_dir D' p" by simp_all
  with assms(2) have "\<not> is_dir D p" by (auto dest: is_dir_mono)
  with n assms(1) obtain d where
    d: "walk D [] (butlast p) = Inr d" and q: "q = enter d (last p)"
    by (auto simp: locate_def split: sum.splits)
  from walk_mono [OF d assms(2)] n q have "locate f D' p = Inr q"
    by (simp add: locate_def)
  with assms(3) show ?thesis by simp
qed

lemma mkdir_Inl:
  assumes "mkdir_exist_ok p w = Inl (e, w1)"
  shows "w1 = w"
    and "files v = files w \<Longrightarrow> dirs v = dirs w \<Longrightarrow> mkdir_exist_ok p v = Inl (e, v)"
  using assms by (auto simp: mkdir_exist_ok_def split: sum.splits if_splits)

lemma mkdir_Inr:
  assumes "mkdir_exist_ok p w = Inr (u, w1)"
  shows "files w1 = files w" and "dirs w \<subseteq> dirs w1"
    and "\<forall>q. q \<in> dirs w1 \<longrightarrow> q \<notin> dirs w \<longrightarrow> files w q = None"
    and "files v = files w \<Longrightarrow> dirs w1 \<subseteq> dirs v \<Longrightarrow>
           mkdir_exist_ok p v = Inr ((), log [MadeDir p] v)"
proof -
  from assms obtain q where
    l: "locate (files w) (dirs w) p = Inr q" and
    k: "(is_dir (dirs w) q \<and> dirs w1 = dirs w)
        \<or> (files w q = None \<and> dirs w1 = insert q (dirs w))" and
    f: "files w1 = files w"
    by (auto simp: mkdir_exist_ok_def split: sum.splits if_splits)
  show "files w1 = files w" by (rule f)
  from k show "dirs w \<subseteq> dirs w1" by auto
  from k show "\<forall>q. q \<in> dirs w1 \<longrightarrow> q \<notin> dirs w \<longrightarrow> files w q = None" by auto
  assume v: "files v = files w" "dirs w1 \<subseteq> dirs v"
  from k have "is_dir (dirs w1) q" by (auto simp: is_dir_def)
  then have q: "is_dir (dirs v) q" using v(2) by (rule is_dir_mono)
  from k v(2) have "dirs w \<subseteq> dirs v" by auto
  from locate_again [OF l this q] obtain q' where
    "locate (files w) (dirs v) p = Inr q'" "is_dir (dirs v) q'" by blast
  with v(1) show "mkdir_exist_ok p v = Inr ((), log [MadeDir p] v)"
    by (simp add: mkdir_exist_ok_def)
qed

text \<open>
  Whatever \<^verbatim>\<open>create_directories\<close> has done, doing it again on the files and directories
  it left ends in the same way and changes nothing.
\<close>

lemma create_directories_Inl:
  assumes "create_directories c w = Inl (e, w1)"
  shows "files w1 = files w" and "dirs w \<subseteq> dirs w1"
    and "\<forall>q. q \<in> dirs w1 \<longrightarrow> q \<notin> dirs w \<longrightarrow> files w q = None"
    and "files v = files w \<Longrightarrow> dirs v = dirs w1 \<Longrightarrow>
           \<exists>v1. create_directories c v = Inl (e, v1) \<and> files v1 = files v \<and> dirs v1 = dirs v"
proof -
  have "files w1 = files w \<and> dirs w \<subseteq> dirs w1
      \<and> (\<forall>q. q \<in> dirs w1 \<longrightarrow> q \<notin> dirs w \<longrightarrow> files w q = None)
      \<and> (files v = files w \<longrightarrow> dirs v = dirs w1 \<longrightarrow>
           (\<exists>v1. create_directories c v = Inl (e, v1) \<and> files v1 = files v \<and> dirs v1 = dirs v))"
  proof (cases "target_paths c")
    case (Inl e')
    with assms show ?thesis
      by (auto simp: create_directories_def bind_io_def lift_io_def raise_io_def)
  next
    case (Inr ab)
    then obtain a b where ab: "target_paths c = Inr (a, b)" by (cases ab) auto
    show ?thesis
    proof (cases "mkdir_exist_ok a w")
      case (Inl ew)
      with assms ab have m: "mkdir_exist_ok a w = Inl (e, w1)"
        by (auto simp: create_directories_def bind_io_def then_io_def lift_io_def
              return_io_def)
      from mkdir_Inl [OF m] ab show ?thesis
        by (auto simp: create_directories_def bind_io_def then_io_def lift_io_def
              return_io_def)
    next
      case (Inr uw)
      then obtain u wa where a: "mkdir_exist_ok a w = Inr (u, wa)" by (cases uw) auto
      with assms ab have b: "mkdir_exist_ok b wa = Inl (e, w1)"
        by (auto simp: create_directories_def bind_io_def then_io_def lift_io_def
              return_io_def print_def split: sum.splits)
      note ka = mkdir_Inr [OF a] and kb = mkdir_Inl [OF b]
      have again: "\<exists>v1. create_directories c v = Inl (e, v1)
                        \<and> files v1 = files v \<and> dirs v1 = dirs v"
        if v: "files v = files w" "dirs v = dirs w1"
      proof -
        from v kb(1) have "dirs wa \<subseteq> dirs v" by simp
        from ka(4) [OF v(1) this] have 1: "mkdir_exist_ok a v = Inr ((), log [MadeDir a] v)" .
        have "mkdir_exist_ok b (log [MadeDir a] v) = Inl (e, log [MadeDir a] v)"
          using v ka(1) kb(1) by (intro kb(2)) simp_all
        with 1 ab show ?thesis
          by (simp add: create_directories_def bind_io_def then_io_def lift_io_def
                return_io_def)
      qed
      from ka kb(1) again show ?thesis by blast
    qed
  qed
  then show "files w1 = files w" and "dirs w \<subseteq> dirs w1"
    and "\<forall>q. q \<in> dirs w1 \<longrightarrow> q \<notin> dirs w \<longrightarrow> files w q = None"
    and "files v = files w \<Longrightarrow> dirs v = dirs w1 \<Longrightarrow>
           \<exists>v1. create_directories c v = Inl (e, v1) \<and> files v1 = files v \<and> dirs v1 = dirs v"
    by blast+
qed

lemma create_directories_Inr:
  assumes "create_directories c w = Inr (u, w1)"
  shows "files w1 = files w" and "dirs w \<subseteq> dirs w1"
    and "\<forall>q. q \<in> dirs w1 \<longrightarrow> q \<notin> dirs w \<longrightarrow> files w q = None"
    and "files v = files w \<Longrightarrow> dirs v = dirs w1 \<Longrightarrow>
           \<exists>v1. create_directories c v = Inr ((), v1) \<and> files v1 = files v \<and> dirs v1 = dirs v"
proof -
  from assms obtain a b ua wa ub wb where
    ab: "target_paths c = Inr (a, b)" and
    a: "mkdir_exist_ok a w = Inr (ua, wa)" and
    b: "mkdir_exist_ok b wa = Inr (ub, wb)" and
    w1: "w1 = log [Printed (MsgCreatedDirs a b)] wb"
    by (auto simp: create_directories_def bind_io_def then_io_def lift_io_def raise_io_def
          return_io_def print_def split: sum.splits prod.splits)
  note ka = mkdir_Inr [OF a] and kb = mkdir_Inr [OF b]
  show "files w1 = files w" using ka(1) kb(1) w1 by simp
  show "dirs w \<subseteq> dirs w1" using ka(2) kb(2) w1 by auto
  show "\<forall>q. q \<in> dirs w1 \<longrightarrow> q \<notin> dirs w \<longrightarrow> files w q = None"
    using ka(1,3) kb(3) w1 by auto
  assume v: "files v = files w" "dirs v = dirs w1"
  have "dirs wa \<subseteq> dirs v" using v(2) kb(2) w1 by auto
  from ka(4) [OF v(1) this] have 1: "mkdir_exist_ok a v = Inr ((), log [MadeDir a] v)" .
  have "mkdir_exist_ok b (log [MadeDir a] v)
          = Inr ((), log [MadeDir b] (log [MadeDir a] v))"
    using v ka(1) w1 by (intro kb(4)) simp_all
  with 1 ab show "\<exists>v1. create_directories c v = Inr ((), v1)
                      \<and> files v1 = files v \<and> dirs v1 = dirs v"
    by (simp add: create_directories_def bind_io_def then_io_def lift_io_def return_io_def
          print_def)
qed

subsection \<open>The run up to the directories\<close>

lemma run_to_directories:
  assumes "files w config_path = Some s" "parse s = Inr c"
    and "env_content c = Inr t"
    and "files w env_path \<noteq> None \<or> [''config''] \<in> dirs w" "env_path \<notin> dirs w"
    and "compose_content c = Inr m"
    and "files w compose_path \<noteq> None \<or> [''docker''] \<in> dirs w" "compose_path \<notin> dirs w"
  shows "\<exists>w4. files w4 = (files w)(env_path \<mapsto> t, compose_path \<mapsto> m)
            \<and> dirs w4 = dirs w
            \<and> main parse w =
                (case create_directories c w4 of
                   Inl (e, x) \<Rightarrow>
                     if is_FileNotFoundError e then log [Printed MsgNotFound] x
                     else log [Printed (MsgError e)] x
                 | Inr (u, x) \<Rightarrow>
                     log [Printed MsgSetupComplete, Printed MsgStepComposeUp,
                          Printed MsgStepJupyterLab, Printed MsgStepSparkUI,
                          Printed MsgToModify, Printed MsgStepEdit, Printed MsgStepRerun,
                          Printed MsgStepRebuild, Printed MsgPackagesNote] x)"
proof -
  let ?w2 = "log [Printed MsgSettingUp, Opened config_path, ReadFrom config_path,
                  Closed config_path, Printed MsgLoaded] w"
  let ?w3 = "log [Opened env_path, Wrote env_path t, Closed env_path, Printed MsgGeneratedEnv]
               (?w2\<lparr>files := (files w)(env_path \<mapsto> t)\<rparr>)"
  let ?w4 = "log [Opened compose_path, Wrote compose_path m, Closed compose_path,
                  Printed MsgGeneratedCompose]
               (?w3\<lparr>files := (files w)(env_path \<mapsto> t, compose_path \<mapsto> m)\<rparr>)"
  have "main parse w =
                (case create_directories c ?w4 of
                   Inl (e, x) \<Rightarrow>
                     if is_FileNotFoundError e then log [Printed MsgNotFound] x
                     else log [Printed (MsgError e)] x
                 | Inr (u, x) \<Rightarrow>
                     log [Printed MsgSetupComplete, Printed MsgStepComposeUp,
                          Printed MsgStepJupyterLab, Printed MsgStepSparkUI,
                          Printed MsgToModify, Printed MsgStepEdit, Printed MsgStepRerun,
                          Printed MsgStepRebuild, Printed MsgPackagesNote] x)"
    using assms
    by (simp add: main_def then_io_def bind_io_def print_def try_body_def load_config_def
          read_file_def write_file_def generate_env_file_def generate_docker_compose_def
          lift_io_def raise_io_def return_io_def locate_fixed log_def
          split: sum.splits prod.splits)
  moreover have "files ?w4 = (files w)(env_path \<mapsto> t, compose_path \<mapsto> m)"
    by simp
  moreover have "dirs ?w4 = dirs w"
    by simp
  ultimately show ?thesis by blast
qed

lemma written_again:
  "((f(env_path \<mapsto> t, compose_path \<mapsto> m))(env_path \<mapsto> t, compose_path \<mapsto> m))
     = f(env_path \<mapsto> t, compose_path \<mapsto> m)"
  by (auto simp: fun_eq_iff)

lemmas early_defs = main_def then_io_def bind_io_def print_def try_body_def load_config_def
  read_file_def write_file_def generate_env_file_def generate_docker_compose_def
  lift_io_def raise_io_def return_io_def locate_fixed

lemma main_again:
  "files (main parse (main parse w)) = files (main parse w)
   \<and> dirs (main parse (main parse w)) = dirs (main parse w)
   \<and> files (main parse w) config_path = files w config_path"
proof (cases "files w config_path")
  case None
  then show ?thesis by (auto simp: early_defs)
next
  case (Some s)
  note s = Some
  show ?thesis
  proof (cases "parse s")
    case (Inl x)
    with s show ?thesis by (auto simp: early_defs)
  next
    case (Inr c)
    note c = Inr
    show ?thesis
    proof (cases "env_content c")
      case (Inl e)
      with s c show ?thesis by (auto simp: early_defs)
    next
      case (Inr t)
      note t = Inr
      show ?thesis
      proof (cases "(files w env_path \<noteq> None \<or> [''config''] \<in> dirs w) \<and> env_path \<notin> dirs w")
        case False
        with s c t show ?thesis by (auto simp: early_defs)
      next
        case True
        then have e1: "files w env_path \<noteq> None \<or> [''config''] \<in> dirs w"
          and e2: "env_path \<notin> dirs w" by simp_all
        show ?thesis
        proof (cases "compose_content c")
          case (Inl e)
          with s c t e1 e2 show ?thesis by (auto simp: early_defs)
        next
          case (Inr m)
          note m = Inr
          show ?thesis
          proof (cases "(files w compose_path \<noteq> None \<or> [''docker''] \<in> dirs w)
                        \<and> compose_path \<notin> dirs w")
            case False
            with s c t e1 e2 m show ?thesis by (auto simp: early_defs)
          next
            case True
            then have c1: "files w compose_path \<noteq> None \<or> [''docker''] \<in> dirs w"
              and c2: "compose_path \<notin> dirs w" by simp_all
            from run_to_directories [where parse = parse, OF s c t e1 e2 m c1 c2] obtain w4 where
              f4: "files w4 = (files w)(env_path \<mapsto> t, compose_path \<mapsto> m)" and
              d4: "dirs w4 = dirs w" and
              r4: "main parse w =
                (case create_directories c w4 of
                   Inl (e, x) \<Rightarrow>
                     if is_FileNotFoundError e then log [Printed MsgNotFound] x
                     else log [Printed (MsgError e)] x
                 | Inr (u, x) \<Rightarrow>
                     log [Printed MsgSetupComplete, Printed MsgStepComposeUp,
                          Printed MsgStepJupyterLab, Printed MsgStepSparkUI,
                          Printed MsgToModify, Printed MsgStepEdit, Printed MsgStepRerun,
                          Printed MsgStepRebuild, Printed MsgPackagesNote] x)"
              by blast
            obtain w5 :: world where
              f5: "files (main parse w) = files w4" and
              d5: "dirs (main parse w) = dirs w5" and
              g5: "dirs w4 \<subseteq> dirs w5" and
              n5: "\<forall>q. q \<in> dirs w5 \<longrightarrow> q \<notin> dirs w4 \<longrightarrow> files w4 q = None" and
              a5: "\<And>v v4. files v4 = files w4 \<Longrightarrow> dirs v4 = dirs w5 \<Longrightarrow>
                     v = (case create_directories c v4 of
                            Inl (e, x) \<Rightarrow>
                              if is_FileNotFoundError e then log [Printed MsgNotFound] x
                              else log [Printed (MsgError e)] x
                          | Inr (u, x) \<Rightarrow>
                              log [Printed MsgSetupComplete, Printed MsgStepComposeUp,
                                   Printed MsgStepJupyterLab, Printed MsgStepSparkUI,
                                   Printed MsgToModify, Printed MsgStepEdit,
                                   Printed MsgStepRerun, Printed MsgStepRebuild,
                                   Printed MsgPackagesNote] x) \<Longrightarrow>
                     files v = files v4 \<and> dirs v = dirs v4"
            proof (cases "create_directories c w4")
              case (Inl ex)
              then obtain e x where r: "create_directories c w4 = Inl (e, x)"
                by (cases ex) auto
              note k = create_directories_Inl [OF r]
              show ?thesis
              proof (rule that [of x])
                show "files (main parse w) = files w4" using r4 r k(1) by simp
                show "dirs (main parse w) = dirs x" using r4 r by simp
                show "dirs w4 \<subseteq> dirs x" by (rule k(2))
                show "\<forall>q. q \<in> dirs x \<longrightarrow> q \<notin> dirs w4 \<longrightarrow> files w4 q = None" by (rule k(3))
              next
                fix v v4 :: world
                assume "files v4 = files w4" "dirs v4 = dirs x"
                from k(4) [OF this] obtain v1 where
                  "create_directories c v4 = Inl (e, v1)" "files v1 = files v4"
                  "dirs v1 = dirs v4" by blast
                moreover assume "v = (case create_directories c v4 of
                            Inl (e, x) \<Rightarrow>
                              if is_FileNotFoundError e then log [Printed MsgNotFound] x
                              else log [Printed (MsgError e)] x
                          | Inr (u, x) \<Rightarrow>
                              log [Printed MsgSetupComplete, Printed MsgStepComposeUp,
                                   Printed MsgStepJupyterLab, Printed MsgStepSparkUI,
                                   Printed MsgToModify, Printed MsgStepEdit,
                                   Printed MsgStepRerun, Printed MsgStepRebuild,
                                   Printed MsgPackagesNote] x)"
                ultimately show "files v = files v4 \<and> dirs v = dirs v4" by simp
              qed
            next
              case (Inr ux)
              then obtain u x where r: "create_directories c w4 = Inr (u, x)"
                by (cases ux) auto
              note k = create_directories_Inr [OF r]
              show ?thesis
              proof (rule that [of x])
                show "files (main parse w) = files w4" using r4 r k(1) by simp
                show "dirs (main parse w) = dirs x" using r4 r by simp
                show "dirs w4 \<subseteq> dirs x" by (rule k(2))
                show "\<forall>q. q \<in> dirs x \<longrightarrow> q \<notin> dirs w4 \<longrightarrow> files w4 q = None" by (rule k(3))
              next
                fix v v4 :: world
                assume "files v4 = files w4" "dirs v4 = dirs x"
                from k(4) [OF this] obtain v1 where
                  "create_directories c v4 = Inr ((), v1)" "files v1 = files v4"
                  "dirs v1 = dirs v4" by blast
                moreover assume "v = (case create_directories c v4 of
                            Inl (e, x) \<Rightarrow>
                              if is_FileNotFoundError e then log [Printed MsgNotFound] x
                              else log [Printed (MsgError e)] x
                          | Inr (u, x) \<Rightarrow>
                              log [Printed MsgSetupComplete, Printed MsgStepComposeUp,
                                   Printed MsgStepJupyterLab, Printed MsgStepSparkUI,
                                   Printed MsgToModify, Printed MsgStepEdit,
                                   Printed MsgStepRerun, Printed MsgStepRebuild,
                                   Printed MsgPackagesNote] x)"
                ultimately show "files v = files v4 \<and> dirs v = dirs v4" by simp
              qed
            qed
            let ?v = "main parse w"
            have vs: "files ?v config_path = Some s"
              using f5 f4 s by simp
            have ve1: "files ?v env_path \<noteq> None \<or> [''config''] \<in> dirs ?v"
              using f5 f4 by simp
            have ve2: "env_path \<notin> dirs ?v"
              using d5 n5 d4 e2 f4 by auto
            have vc1: "files ?v compose_path \<noteq> None \<or> [''docker''] \<in> dirs ?v"
              using f5 f4 by simp
            have vc2: "compose_path \<notin> dirs ?v"
              using d5 n5 d4 c2 f4 by auto
            from run_to_directories [where parse = parse, OF vs c t ve1 ve2 m vc1 vc2] obtain v4 where
              fv4: "files v4 = (files ?v)(env_path \<mapsto> t, compose_path \<mapsto> m)" and
              dv4: "dirs v4 = dirs ?v" and
              rv4: "main parse ?v =
                (case create_directories c v4 of
                   Inl (e, x) \<Rightarrow>
                     if is_FileNotFoundError e then log [Printed MsgNotFound] x
                     else log [Printed (MsgError e)] x
                 | Inr (u, x) \<Rightarrow>
                     log [Printed MsgSetupComplete, Printed MsgStepComposeUp,
                          Printed MsgStepJupyterLab, Printed MsgStepSparkUI,
                          Printed MsgToModify, Printed MsgStepEdit, Printed MsgStepRerun,
                          Printed MsgStepRebuild, Printed MsgPackagesNote] x)"
              by blast
            have 1: "files v4 = files w4"
              unfolding fv4 f5 f4 by (rule written_again)
            have 2: "dirs v4 = dirs w5"
              using dv4 d5 by simp
            from a5 [OF 1 2 rv4] have "files (main parse ?v) = files v4"
              and "dirs (main parse ?v) = dirs v4" by simp_all
            with 1 2 f5 d5 f4 s show ?thesis by simp
          qed
        qed
      qed
    qed
  qed
qed

lemma outputs_from_config:
  assumes "files w' config_path = files w config_path"
    and "run_succeeds parse w" "run_succeeds parse w'"
  shows "files (main parse w') env_path = files (main parse w) env_path
       \<and> files (main parse w') compose_path = files (main parse w) compose_path"
  using run_succeeds_steps [OF assms(2)] run_succeeds_steps [OF assms(3)] assms(1)
  by auto

text \<open>
  C4. A second run on the world that the first run has left changes neither a file nor
  a directory: both output files keep their contents byte for byte. The run does not
  touch the configuration file, so the second run reads the same Configuration. Two
  successful runs on worlds that hold the same configuration file write the same two
  texts, whatever else the worlds hold.
\<close>

theorem rerun_identical_outputs:
  "files (main parse (main parse w)) = files (main parse w)
   \<and> dirs (main parse (main parse w)) = dirs (main parse w)
   \<and> files (main parse w) config_path = files w config_path
   \<and> (\<forall>w'. files w' config_path = files w config_path
            \<and> run_succeeds parse w \<and> run_succeeds parse w'
         \<longrightarrow> files (main parse w') env_path = files (main parse w) env_path
           \<and> files (main parse w') compose_path = files (main parse w) compose_path)"
  using main_again [of parse w] outputs_from_config [of _ w parse] by blast

theorem rerun_identical_outputs_witness:
  "files (checkout (Some [])\<lparr>dirs := insert [''notebooks''] (dirs (checkout (Some [])))\<rparr>)
       config_path = files (checkout (Some [])) config_path
   \<and> run_succeeds (parse_as example_config) (checkout (Some []))
   \<and> run_succeeds (parse_as example_config)
        (checkout (Some [])\<lparr>dirs := insert [''notebooks''] (dirs (checkout (Some [])))\<rparr>)
   \<and> files (main (parse_as example_config)
        (checkout (Some [])\<lparr>dirs := insert [''notebooks''] (dirs (checkout (Some [])))\<rparr>))
        env_path
     = files (main (parse_as example_config) (checkout (Some []))) env_path
   \<and> files (main (parse_as example_config)
        (checkout (Some [])\<lparr>dirs := insert [''notebooks''] (dirs (checkout (Some [])))\<rparr>))
        compose_path
     = files (main (parse_as example_config) (checkout (Some []))) compose_path"
proof -
  have r: "run_succeeds (parse_as example_config)
        (checkout (Some [])\<lparr>dirs := insert [''notebooks''] (dirs (checkout (Some [])))\<rparr>)"
    by (simp add: run_succeeds_def run_defs example_config_def)
  have f: "files (checkout (Some [])\<lparr>dirs := insert [''notebooks''] (dirs (checkout (Some [])))\<rparr>)
       config_path = files (checkout (Some [])) config_path"
    by simp
  show ?thesis
    using rerun_identical_outputs [of "parse_as example_config" "checkout (Some [])"]
      r f run_succeeds_example
    by blast
qed

section \<open>The manifest\<close>

text \<open>
  C9. The text of the manifest is a function of \<^verbatim>\<open>config['network']['name']\<close> alone:
  two Configurations with the same outcome of that subscription get the same text, and
  \<^verbatim>\<open>generate_docker_compose\<close> behaves the same for both.
\<close>

theorem manifest_depends_on_network_name:
  assumes "getpath c1 [''network'', ''name''] = getpath c2 [''network'', ''name'']"
  shows "compose_content c1 = compose_content c2
       \<and> generate_docker_compose c1 = generate_docker_compose c2"
  using assms by (simp add: compose_content_def generate_docker_compose_def)

theorem manifest_depends_on_network_name_witness:
  "getpath example_config [''network'', ''name'']
     = getpath (sample_config (YStr ''/srv/nb'') (YInt 7) (YStr ''spark-network''))
         [''network'', ''name'']
   \<and> example_config \<noteq> sample_config (YStr ''/srv/nb'') (YInt 7) (YStr ''spark-network'')
   \<and> compose_content example_config
     = compose_content (sample_config (YStr ''/srv/nb'') (YInt 7) (YStr ''spark-network''))"
proof -
  have a: "getpath example_config [''network'', ''name'']
     = getpath (sample_config (YStr ''/srv/nb'') (YInt 7) (YStr ''spark-network''))
         [''network'', ''name'']"
    by (simp add: example_config_def sample_config_def getitem_def bindE_def)
  have b: "example_config \<noteq> sample_config (YStr ''/srv/nb'') (YInt 7) (YStr ''spark-network'')"
    by (simp add: example_config_def sample_config_def)
  show ?thesis
    using manifest_depends_on_network_name [OF a] a b by simp
qed

subsection \<open>Blocks\<close>

lemma compose_lines_text:
  "CHR 0x0A \<notin> set n \<Longrightarrow> text_lines (unlines (compose_lines n)) = compose_lines n @ [[]]"
  by (rule text_lines_unlines) (simp add: compose_lines_def)

lemma service_blocks:
  "plain_name n \<Longrightarrow>
     map block_name (filter block_header (section_of ''services'' (compose_lines n @ [[]])))
       = [''spark-master'', ''spark-worker'', ''jupyter'']"
  by (cases n)
     (simp_all add: compose_lines_def section_of_def top_level_def block_header_def
        block_name_def plain_name_def)

lemma network_blocks:
  "plain_name n \<Longrightarrow>
     map block_name (filter block_header (section_of ''networks'' (compose_lines n @ [[]])))
       = [n]"
  by (cases n)
     (simp_all add: compose_lines_def section_of_def top_level_def block_header_def
        block_name_def plain_name_def)

text \<open>
  C5, as amended. When the string form of \<^verbatim>\<open>network.name\<close> is a plain name (no line
  feed in it, no space or comment sign at its start), the manifest has exactly the three
  service blocks \<^verbatim>\<open>spark-master\<close>, \<^verbatim>\<open>spark-worker\<close> and \<^verbatim>\<open>jupyter\<close> and exactly one
  network block, whose name is that string form.
\<close>

theorem manifest_blocks:
  assumes "getpath config [''network'', ''name''] = Inr v" "plain_name (py_str v)"
  shows "\<exists>t. compose_content config = Inr t
           \<and> blocks ''services'' t = [''spark-master'', ''spark-worker'', ''jupyter'']
           \<and> blocks ''networks'' t = [py_str v]"
proof -
  have t: "compose_content config = Inr (unlines (compose_lines (py_str v)))"
    using assms(1) by (simp add: compose_content_def bindE_def)
  have n: "CHR 0x0A \<notin> set (py_str v)"
    using assms(2) by (simp add: plain_name_def)
  have "blocks ''services'' (unlines (compose_lines (py_str v)))
          = [''spark-master'', ''spark-worker'', ''jupyter'']"
    unfolding blocks_def compose_lines_text [OF n] by (rule service_blocks [OF assms(2)])
  moreover have "blocks ''networks'' (unlines (compose_lines (py_str v))) = [py_str v]"
    unfolding blocks_def compose_lines_text [OF n] by (rule network_blocks [OF assms(2)])
  ultimately show ?thesis using t by simp
qed

theorem manifest_blocks_witness:
  "getpath example_config [''network'', ''name''] = Inr (YStr ''spark-network'')
   \<and> plain_name (py_str (YStr ''spark-network''))
   \<and> (\<exists>t. compose_content example_config = Inr t
           \<and> blocks ''services'' t = [''spark-master'', ''spark-worker'', ''jupyter'']
           \<and> blocks ''networks'' t = [''spark-network''])"
proof -
  have a: "getpath example_config [''network'', ''name''] = Inr (YStr ''spark-network'')"
    by (simp add: example_config_def sample_config_def getitem_def bindE_def)
  have b: "plain_name (py_str (YStr ''spark-network''))"
    by (simp add: plain_name_def py_str_def)
  show ?thesis
    using manifest_blocks [OF a b] a b by (simp add: py_str_def)
qed

text \<open>
  C5 as stated holds for every complete Configuration. A name of two lines is a string
  like any other and is put in as it is: the manifest of the run below has two network
  blocks, \<^verbatim>\<open>dev\<close> and \<^verbatim>\<open>x\<close>.
\<close>

theorem manifest_blocks_counterexample:
  "complete (sample_config (YStr ''./notebooks'') (YStr ''./data'')
               (YStr (''dev:'' @ [CHR 0x0A] @ ''  x'')))
   \<and> map_option (blocks ''networks'')
        (files (main (parse_as (sample_config (YStr ''./notebooks'') (YStr ''./data'')
                                  (YStr (''dev:'' @ [CHR 0x0A] @ ''  x''))))
                     (checkout (Some []))) compose_path)
      = Some [''dev'', ''x'']"
proof -
  have f: "files (main (parse_as (sample_config (YStr ''./notebooks'') (YStr ''./data'')
                                  (YStr (''dev:'' @ [CHR 0x0A] @ ''  x''))))
                     (checkout (Some []))) compose_path
           = Some (unlines (compose_lines (''dev:'' @ [CHR 0x0A] @ ''  x'')))"
    by (simp add: run_defs py_str_def)
  have b: "blocks ''networks'' (unlines (compose_lines (''dev:'' @ [CHR 0x0A] @ ''  x'')))
             = [''dev'', ''x'']"
    by (simp add: blocks_def text_lines_unlines_split compose_lines_def section_of_def
          top_level_def block_header_def block_name_def)
  show ?thesis
    unfolding f using b by (simp add: complete_sample)
qed

section \<open>The directories\<close>

text \<open>After \<^verbatim>\<open>lstrip('./')\<close> a string begins neither with a dot nor with a slash.\<close>

lemma lstrip_dot_slash:
  "lstrip ''./'' s = [] \<or> (hd (lstrip ''./'' s) \<noteq> CHR ''.'' \<and> hd (lstrip ''./'' s) \<noteq> CHR ''/'')"
  unfolding lstrip_def using hd_dropWhile [of "\<lambda>c. c \<in> set ''./''" s] by auto

text \<open>A string that begins with neither of the two characters is left as it is.\<close>

lemma lstrip_unchanged:
  "s = [] \<or> (hd s \<noteq> CHR ''.'' \<and> hd s \<noteq> CHR ''/'') \<Longrightarrow> lstrip ''./'' s = s"
  by (cases s) (auto simp: lstrip_def)



text \<open>
  C6 says that only a leading \<^verbatim>\<open>./\<close> is taken off the configured path. The code calls
  \<^verbatim>\<open>lstrip('./')\<close>, which takes off every leading dot and slash. For the notebooks path
  \<^verbatim>\<open>.notebooks\<close>, which has no leading \<^verbatim>\<open>./\<close>, the run creates \<^verbatim>\<open>notebooks\<close> and not
  \<^verbatim>\<open>.notebooks\<close>; for the data path \<^verbatim>\<open>../data\<close> the target is \<^verbatim>\<open>data\<close> below the root.
\<close>

theorem leading_dots_stripped:
  "target_paths (sample_config (YStr ''.notebooks'') (YStr ''../data'') (YStr ''spark-network''))
     = Inr ([''notebooks''], [''data''])
   \<and> [''notebooks''] \<in> dirs (main (parse_as (sample_config (YStr ''.notebooks'')
                                   (YStr ''../data'') (YStr ''spark-network'')))
                                (checkout (Some [])))
   \<and> [''.notebooks''] \<notin> dirs (main (parse_as (sample_config (YStr ''.notebooks'')
                                   (YStr ''../data'') (YStr ''spark-network'')))
                                (checkout (Some [])))"
  by (simp add: run_defs py_str_def)

text \<open>
  A path through \<^verbatim>\<open>..\<close> is followed as the system follows it: with \<^verbatim>\<open>docker\<close> there,
  \<^verbatim>\<open>docker/../notebooks\<close> is the directory \<^verbatim>\<open>notebooks\<close> below the root.
\<close>

lemma directory_through_parent:
  "target_paths (sample_config (YStr ''./docker/../notebooks'') (YStr ''./data'')
                   (YStr ''spark-network''))
     = Inr ([''docker'', ''..'', ''notebooks''], [''data''])
   \<and> [''notebooks''] \<in> dirs (main (parse_as (sample_config (YStr ''./docker/../notebooks'')
                                   (YStr ''./data'') (YStr ''spark-network'')))
                                (checkout (Some [])))
   \<and> run_succeeds (parse_as (sample_config (YStr ''./docker/../notebooks'')
                                (YStr ''./data'') (YStr ''spark-network'')))
                   (checkout (Some []))"
  by (simp add: run_defs run_succeeds_def py_str_def)

section \<open>Failures\<close>

text \<open>
  Whatever the body of the \<^verbatim>\<open>try\<close> statement raises, \<^verbatim>\<open>main\<close> prints one line and
  returns the world as the failure left it: nothing is undone.
\<close>

lemma failure_reported:
  assumes "then_io (print MsgSettingUp) (try_body parse) w = Inl (e, w')"
  shows "main parse w =
           (if is_FileNotFoundError e then log [Printed MsgNotFound] w'
            else log [Printed (MsgError e)] w')"
  using assms by (simp add: main_def)

text \<open>
  C8 says that every failure other than the missing configuration file is reported with
  its own message. In both runs below the configuration file is there and is loaded. In
  the first the directory \<^verbatim>\<open>docker\<close> is missing, so the manifest cannot be opened for
  writing; in the second both output files are written and \<^verbatim>\<open>mkdir\<close> fails because the
  parent \<^verbatim>\<open>work\<close> of the notebooks directory does not exist. Both failures are a
  \<^verbatim>\<open>FileNotFoundError\<close>, so the first handler takes them: after having printed that the
  configuration was loaded, the run prints that \<^verbatim>\<open>config/config.yaml\<close> was not found.
  The files written before the failure stay.
\<close>

theorem other_missing_path_reported_as_missing_config:
  "console (main (parse_as example_config)
                 (checkout (Some [])\<lparr>dirs := {[], [''config'']}\<rparr>))
     = [MsgSettingUp, MsgLoaded, MsgGeneratedEnv, MsgNotFound]
   \<and> files (main (parse_as example_config)
                 (checkout (Some [])\<lparr>dirs := {[], [''config'']}\<rparr>)) env_path \<noteq> None
   \<and> files (main (parse_as example_config)
                 (checkout (Some [])\<lparr>dirs := {[], [''config'']}\<rparr>)) compose_path = None
   \<and> console (main (parse_as (sample_config (YStr ''./work/notebooks'') (YStr ''./data'')
                              (YStr ''spark-network'')))
                 (checkout (Some [])))
     = [MsgSettingUp, MsgLoaded, MsgGeneratedEnv, MsgGeneratedCompose, MsgNotFound]
   \<and> files (main (parse_as (sample_config (YStr ''./work/notebooks'') (YStr ''./data'')
                              (YStr ''spark-network'')))
                 (checkout (Some []))) env_path \<noteq> None
   \<and> files (main (parse_as (sample_config (YStr ''./work/notebooks'') (YStr ''./data'')
                              (YStr ''spark-network'')))
                 (checkout (Some []))) compose_path \<noteq> None"
  by (simp add: run_defs example_config_def py_str_def console_def
        is_FileNotFoundError_def)

end
